theory Spec2Isabelle
  imports Complex_Main "HOL-Library.AList" "HOL-Library.Multiset"
begin

section \<open>JavaScript values\<close>

text \<open>
  The program is one JavaScript file, \<^verbatim>\<open>src/frontend/mock.api.js/index.js\<close>. Its data are
  dynamically typed values, so the embedding starts with the value universe the code
  inspects with \<^verbatim>\<open>typeof\<close>, \<^verbatim>\<open>!=\<close>, \<^verbatim>\<open><\<close> and \<^verbatim>\<open>includes\<close>.

  \<^item> A number is an IEEE double. Every finite double is a rational, so a number is
    \<open>NaN\<close>, an infinity or a rational (\<open>-0\<close> and \<open>+0\<close> are the same for every operator the
    code uses). The code compares numbers and, when it paginates, subtracts, multiplies
    and adds them; the arithmetic of the model is exact, which is that of the doubles
    wherever the result is a double (on the integers below \<open>2^53\<close>, for one).
  \<^item> A string is a \<^typ>\<open>string\<close>, one \<^typ>\<open>char\<close> per code unit; text beyond Latin-1 is
    carried as its UTF-8 bytes (equality is exact; \<open>length\<close> and \<open><\<close> are those of JavaScript
    on ASCII text).
  \<^item> An object is the list of its own enumerable properties in enumeration order, an
    array the list of its elements. Properties inherited from \<^verbatim>\<open>Object.prototype\<close> or
    \<^verbatim>\<open>Array.prototype\<close> (\<^verbatim>\<open>constructor\<close>, \<^verbatim>\<open>length\<close>, array indices) are outside the model,
    and so is object identity: two objects that meet in a comparison here are always
    distinct references (a stored record is a structured clone, a request body is
    freshly parsed).
\<close>

datatype jsnum = NaN | NegInf | Fin rat | PosInf

datatype jsval =
    JUndefined
  | JNull
  | JBool bool
  | JNum jsnum
  | JStr string
  | JObj "(string \<times> jsval) list"
  | JArr "jsval list"

text \<open>
  The conversions between numbers and strings (\<^verbatim>\<open>Number::toString\<close>, \<^verbatim>\<open>StringToNumber\<close>),
  \<^verbatim>\<open>JSON.parse\<close> and the \<^verbatim>\<open>URL\<close> constructor belong to the host, not to the repository.
  They are parameters of the model: every theorem holds for any host. \<open>None\<close> is the
  host function throwing (\<^verbatim>\<open>SyntaxError\<close> for \<^verbatim>\<open>JSON.parse\<close>, \<^verbatim>\<open>TypeError\<close> for an invalid URL).
\<close>

record url =
  pathname :: string
  searchParams :: "(string \<times> string) list"

record host =
  NumberToString :: "jsnum \<Rightarrow> string"
  StringToNumber :: "string \<Rightarrow> jsnum"
  JSON_parse :: "string \<Rightarrow> jsval option"
  URL_new :: "string \<Rightarrow> url option"

subsection \<open>Property access, typeof, truthiness\<close>

text \<open>\<^verbatim>\<open>o[key]\<close> on an object: the own property, or \<^verbatim>\<open>undefined\<close>.\<close>

fun get_prop :: "jsval \<Rightarrow> string \<Rightarrow> jsval" where
  "get_prop (JObj ps) key = (case map_of ps key of Some v \<Rightarrow> v | None \<Rightarrow> JUndefined)"
| "get_prop _ key = JUndefined"

fun typeof :: "jsval \<Rightarrow> string" where
  "typeof JUndefined = ''undefined''"
| "typeof JNull = ''object''"
| "typeof (JBool b) = ''boolean''"
| "typeof (JNum n) = ''number''"
| "typeof (JStr s) = ''string''"
| "typeof (JObj ps) = ''object''"
| "typeof (JArr xs) = ''object''"

text \<open>A number is truthy unless it is \<open>0\<close> or \<open>NaN\<close>.\<close>

definition truthy_num :: "jsnum \<Rightarrow> bool" where
  "truthy_num n = (n \<noteq> NaN \<and> n \<noteq> Fin 0)"

subsection \<open>Numbers: equality and order\<close>

definition num_eq :: "jsnum \<Rightarrow> jsnum \<Rightarrow> bool" where
  "num_eq a b = (a \<noteq> NaN \<and> a = b)"

fun num_lt :: "jsnum \<Rightarrow> jsnum \<Rightarrow> bool" where
  "num_lt NaN b = False"
| "num_lt a NaN = False"
| "num_lt PosInf b = False"
| "num_lt a NegInf = False"
| "num_lt NegInf b = True"
| "num_lt a PosInf = True"
| "num_lt (Fin x) (Fin y) = (x < y)"

text \<open>
  The arithmetic of \<^verbatim>\<open>-\<close>, \<^verbatim>\<open>*\<close> and \<^verbatim>\<open>+\<close> on numbers, and \<^verbatim>\<open>Math.max\<close> of two numbers: \<open>NaN\<close>
  is contagious, \<open>\<infinity> - \<infinity>\<close> and \<open>0 * \<infinity>\<close> are \<open>NaN\<close>.
\<close>

fun num_neg :: "jsnum \<Rightarrow> jsnum" where
  "num_neg NaN = NaN"
| "num_neg NegInf = PosInf"
| "num_neg PosInf = NegInf"
| "num_neg (Fin x) = Fin (- x)"

fun num_add :: "jsnum \<Rightarrow> jsnum \<Rightarrow> jsnum" where
  "num_add NaN b = NaN"
| "num_add a NaN = NaN"
| "num_add (Fin x) (Fin y) = Fin (x + y)"
| "num_add PosInf NegInf = NaN"
| "num_add NegInf PosInf = NaN"
| "num_add PosInf b = PosInf"
| "num_add a PosInf = PosInf"
| "num_add NegInf b = NegInf"
| "num_add a NegInf = NegInf"

definition num_sub :: "jsnum \<Rightarrow> jsnum \<Rightarrow> jsnum" where
  "num_sub a b = num_add a (num_neg b)"

fun num_mul :: "jsnum \<Rightarrow> jsnum \<Rightarrow> jsnum" where
  "num_mul NaN b = NaN"
| "num_mul a NaN = NaN"
| "num_mul (Fin x) (Fin y) = Fin (x * y)"
| "num_mul a b =
     (if a = Fin 0 \<or> b = Fin 0 then NaN
      else if num_lt a (Fin 0) = num_lt b (Fin 0) then PosInf else NegInf)"

definition Math_max :: "jsnum \<Rightarrow> jsnum \<Rightarrow> jsnum" where
  "Math_max a b = (if a = NaN \<or> b = NaN then NaN else if num_lt a b then b else a)"

subsection \<open>ToString and ToPrimitive\<close>

fun join :: "string \<Rightarrow> string list \<Rightarrow> string" where
  "join sep [] = []"
| "join sep [s] = s"
| "join sep (s # t # ss) = s @ sep @ join sep (t # ss)"

text \<open>
  \<^verbatim>\<open>String(v)\<close>. A plain object prints as \<^verbatim>\<open>[object Object]\<close>; an array joins its elements
  with a comma, \<^verbatim>\<open>null\<close> and \<^verbatim>\<open>undefined\<close> elements printing as the empty string.
\<close>

fun ToString :: "host \<Rightarrow> jsval \<Rightarrow> string" where
  "ToString h JUndefined = ''undefined''"
| "ToString h JNull = ''null''"
| "ToString h (JBool b) = (if b then ''true'' else ''false'')"
| "ToString h (JNum n) = NumberToString h n"
| "ToString h (JStr s) = s"
| "ToString h (JObj ps) = ''[object Object]''"
| "ToString h (JArr xs) =
     join '','' (map (\<lambda>x. if x = JUndefined \<or> x = JNull then [] else ToString h x) xs)"

text \<open>\<^verbatim>\<open>arr.join(sep)\<close> on an array of values.\<close>

definition array_join :: "host \<Rightarrow> string \<Rightarrow> jsval list \<Rightarrow> string" where
  "array_join h sep xs =
     join sep (map (\<lambda>x. if x = JUndefined \<or> x = JNull then [] else ToString h x) xs)"

text \<open>
  \<^verbatim>\<open>ToPrimitive\<close>: a primitive is itself; a plain object or an array has no primitive
  \<^verbatim>\<open>valueOf\<close>, so it becomes its string.
\<close>

fun ToPrimitive :: "host \<Rightarrow> jsval \<Rightarrow> jsval" where
  "ToPrimitive h (JObj ps) = JStr (ToString h (JObj ps))"
| "ToPrimitive h (JArr xs) = JStr (ToString h (JArr xs))"
| "ToPrimitive h v = v"

text \<open>\<^verbatim>\<open>ToNumber\<close>; an object goes through its primitive.\<close>

fun ToNumber :: "host \<Rightarrow> jsval \<Rightarrow> jsnum" where
  "ToNumber h JUndefined = NaN"
| "ToNumber h JNull = Fin 0"
| "ToNumber h (JBool b) = (if b then Fin 1 else Fin 0)"
| "ToNumber h (JNum n) = n"
| "ToNumber h (JStr s) = StringToNumber h s"
| "ToNumber h v = ToNumber h (ToPrimitive h v)"

text \<open>Truthiness: what \<^verbatim>\<open>a && b\<close> and \<^verbatim>\<open>if (a)\<close> test.\<close>

fun truthy :: "jsval \<Rightarrow> bool" where
  "truthy JUndefined = False"
| "truthy JNull = False"
| "truthy (JBool b) = b"
| "truthy (JNum n) = truthy_num n"
| "truthy (JStr s) = (s \<noteq> [])"
| "truthy (JObj ps) = True"
| "truthy (JArr xs) = True"

fun is_string :: "jsval \<Rightarrow> bool" where
  "is_string (JStr s) = True"
| "is_string v = False"

text \<open>
  \<^verbatim>\<open>x + y\<close>: both operands become primitives; if either is a string the result is the
  concatenation of their strings, otherwise the sum of their numbers.
\<close>

definition js_plus :: "host \<Rightarrow> jsval \<Rightarrow> jsval \<Rightarrow> jsval" where
  "js_plus h x y =
     (if is_string (ToPrimitive h x) \<or> is_string (ToPrimitive h y)
      then JStr (ToString h (ToPrimitive h x) @ ToString h (ToPrimitive h y))
      else JNum (num_add (ToNumber h (ToPrimitive h x)) (ToNumber h (ToPrimitive h y))))"

subsection \<open>The operators \<^verbatim>\<open>==\<close>, \<^verbatim>\<open><\<close> and \<^verbatim>\<open>Array.prototype.includes\<close>\<close>

fun is_object :: "jsval \<Rightarrow> bool" where
  "is_object (JObj ps) = True"
| "is_object (JArr xs) = True"
| "is_object v = False"

fun nullish :: "jsval \<Rightarrow> bool" where
  "nullish JUndefined = True"
| "nullish JNull = True"
| "nullish v = False"

fun bool_to_num :: "jsval \<Rightarrow> jsval" where
  "bool_to_num (JBool b) = JNum (if b then Fin 1 else Fin 0)"
| "bool_to_num v = v"

text \<open>
  \<^verbatim>\<open>x == y\<close> (IsLooselyEqual). Two objects are equal only when they are the same
  reference, which never happens here. Otherwise an object becomes its primitive and a
  boolean its number; then \<^verbatim>\<open>null\<close> and \<^verbatim>\<open>undefined\<close> equal each other and nothing else,
  numbers and strings compare within their type, and a number meets a string through
  \<^verbatim>\<open>StringToNumber\<close>. \<^verbatim>\<open>x != y\<close> is its negation.
\<close>

definition loose_eq :: "host \<Rightarrow> jsval \<Rightarrow> jsval \<Rightarrow> bool" where
  "loose_eq h x y =
     (if is_object x \<and> is_object y then False
      else (case (bool_to_num (ToPrimitive h x), bool_to_num (ToPrimitive h y)) of
              (JNum m, JNum n) \<Rightarrow> num_eq m n
            | (JStr s, JStr t) \<Rightarrow> s = t
            | (JNum m, JStr t) \<Rightarrow> num_eq m (StringToNumber h t)
            | (JStr s, JNum n) \<Rightarrow> num_eq (StringToNumber h s) n
            | (a, b) \<Rightarrow> nullish a \<and> nullish b))"

text \<open>Strings compare code unit by code unit.\<close>

fun str_less :: "string \<Rightarrow> string \<Rightarrow> bool" where
  "str_less [] [] = False"
| "str_less [] (y # ys) = True"
| "str_less (x # xs) [] = False"
| "str_less (x # xs) (y # ys) =
     (if (of_char x :: nat) < of_char y then True
      else if (of_char y :: nat) < of_char x then False
      else str_less xs ys)"

text \<open>
  \<^verbatim>\<open>x < y\<close> (IsLessThan): both operands become primitives; two strings compare as strings,
  anything else as numbers, and a comparison with \<open>NaN\<close> is false. \<^verbatim>\<open>x > y\<close> is \<^verbatim>\<open>y < x\<close>.
\<close>

definition js_less :: "host \<Rightarrow> jsval \<Rightarrow> jsval \<Rightarrow> bool" where
  "js_less h x y =
     (case (ToPrimitive h x, ToPrimitive h y) of
        (JStr s, JStr t) \<Rightarrow> str_less s t
      | (a, b) \<Rightarrow> num_lt (ToNumber h a) (ToNumber h b))"

text \<open>
  \<^verbatim>\<open>arr.includes(v)\<close> compares with SameValueZero: primitives by type and value (\<open>NaN\<close>
  equals \<open>NaN\<close>), objects by reference, so an object is never found.
\<close>

definition array_includes :: "jsval list \<Rightarrow> jsval \<Rightarrow> bool" where
  "array_includes arr v = (if is_object v then False else v \<in> set arr)"

section \<open>validateSchema\<close>

text \<open>
  A schema is an object of field rules, enumerated by \<^verbatim>\<open>for (const key in schema)\<close>. A rule
  is an object literal; an absent property is \<open>None\<close> (\<^verbatim>\<open>undefined\<close>), an absent
  \<^verbatim>\<open>required\<close> is \<open>False\<close>. \<^verbatim>\<open>pattern\<close> is a \<^verbatim>\<open>RegExp\<close>, modelled by its \<^verbatim>\<open>test\<close> function
  (a regular expression without the \<^verbatim>\<open>g\<close> and \<^verbatim>\<open>y\<close> flags, whose \<^verbatim>\<open>test\<close> has no state).
\<close>

record rule =
  type_f :: "string option"
  required :: bool
  minLength :: "jsnum option"
  maxLength :: "jsnum option"
  pattern :: "(string \<Rightarrow> bool) option"
  min_f :: "jsnum option"
  max_f :: "jsnum option"
  enum_f :: "jsval list option"

type_synonym schema = "(string \<times> rule) list"

record validation_result =
  success :: bool
  errors :: jsval

text \<open>The \<^verbatim>\<open>case 'string'\<close> branch of the switch; \<open>s\<close> is the value.\<close>

definition string_checks :: "host \<Rightarrow> rule \<Rightarrow> string \<Rightarrow> string list" where
  "string_checks h rule s =
     (case minLength rule of
        Some m \<Rightarrow> if truthy_num m \<and> num_lt (Fin (of_nat (length s))) m
                  then [''Minimum length is '' @ NumberToString h m] else []
      | None \<Rightarrow> [])
     @ (case maxLength rule of
        Some m \<Rightarrow> if truthy_num m \<and> num_lt m (Fin (of_nat (length s)))
                  then [''Maximum length is '' @ NumberToString h m] else []
      | None \<Rightarrow> [])
     @ (case pattern rule of
        Some test \<Rightarrow> if \<not> test s then [''Does not match pattern''] else []
      | None \<Rightarrow> [])"

text \<open>The \<^verbatim>\<open>case 'number'\<close> branch of the switch; \<open>n\<close> is the value.\<close>

definition number_checks :: "host \<Rightarrow> rule \<Rightarrow> jsnum \<Rightarrow> string list" where
  "number_checks h rule n =
     (case min_f rule of
        Some m \<Rightarrow> if num_lt n m then [''Minimum value is '' @ NumberToString h m] else []
      | None \<Rightarrow> [])
     @ (case max_f rule of
        Some m \<Rightarrow> if num_lt m n then [''Maximum value is '' @ NumberToString h m] else []
      | None \<Rightarrow> [])"

text \<open>
  The type test and the switch. \<^verbatim>\<open>rule.type && typeof value !== rule.type\<close>: an absent or
  empty type name is falsy, and then the switch finds no case either.
\<close>

definition type_checks :: "host \<Rightarrow> rule \<Rightarrow> jsval \<Rightarrow> string list" where
  "type_checks h rule v =
     (case type_f rule of
        None \<Rightarrow> []
      | Some t \<Rightarrow>
          if t \<noteq> [] \<and> typeof v \<noteq> t then [''Type must be '' @ [CHR 0x27] @ t @ [CHR 0x27]]
          else if t = ''string'' then (case v of JStr s \<Rightarrow> string_checks h rule s | _ \<Rightarrow> [])
          else if t = ''number'' then (case v of JNum n \<Rightarrow> number_checks h rule n | _ \<Rightarrow> [])
          else [])"

definition enum_checks :: "host \<Rightarrow> rule \<Rightarrow> jsval \<Rightarrow> string list" where
  "enum_checks h rule v =
     (case enum_f rule of
        Some allowed \<Rightarrow> if \<not> array_includes allowed v
                        then [''Value must be one of: '' @ array_join h '', '' allowed] else []
      | None \<Rightarrow> [])"

text \<open>The body of the loop: the \<^verbatim>\<open>fieldErrors\<close> of one key.\<close>

definition fieldErrors :: "host \<Rightarrow> rule \<Rightarrow> jsval \<Rightarrow> string list" where
  "fieldErrors h rule v =
     (if required rule \<and> (v = JUndefined \<or> v = JNull) then [''Field is required'']
      else if v \<noteq> JUndefined \<and> v \<noteq> JNull then type_checks h rule v @ enum_checks h rule v
      else [])"

text \<open>
  The loop over the keys of the schema; \<open>errs\<close> is the \<^verbatim>\<open>errors\<close> object so far, and
  \<^verbatim>\<open>errors[key] = fieldErrors\<close> is an update of it.
\<close>

fun validate_fields ::
  "host \<Rightarrow> jsval \<Rightarrow> schema \<Rightarrow> string list \<Rightarrow> (string \<times> jsval) list \<Rightarrow> (string \<times> jsval) list"
where
  "validate_fields h data schema [] errs = errs"
| "validate_fields h data schema (key # keys) errs =
     (case map_of schema key of
        None \<Rightarrow> validate_fields h data schema keys errs
      | Some rule \<Rightarrow>
          validate_fields h data schema keys
            (if fieldErrors h rule (get_prop data key) \<noteq> []
             then AList.update key (JArr (map JStr (fieldErrors h rule (get_prop data key)))) errs
             else errs))"

definition validateSchema :: "host \<Rightarrow> jsval \<Rightarrow> schema \<Rightarrow> validation_result" where
  "validateSchema h data schema =
     (if \<not> (typeof data = ''object'' \<and> data \<noteq> JNull)
      then \<lparr>success = False,
            errors = JObj [(''_global'', JStr ''Request body was expected to be an object.'')]\<rparr>
      else (let errs = validate_fields h data schema (map fst schema) [] in
            \<lparr>success = (errs = []), errors = (if errs \<noteq> [] then JObj errs else JNull)\<rparr>))"

section \<open>DbWrapper.find\<close>

text \<open>
  \<^verbatim>\<open>find\<close> walks a cursor over one object store and resolves with the records it keeps.
  The model takes the records the cursor yields, in cursor order (a cursor that fails
  rejects the promise and is not modelled); a record of a store with the key path
  \<^verbatim>\<open>id\<close> is an object. A query is the
  destructured argument \<^verbatim>\<open>{ filter = {}, sort = {}, paginate = {} }\<close>: the filter object and
  the sort object are the lists of their properties (\<^verbatim>\<open>for ... in\<close> and \<^verbatim>\<open>Object.keys\<close>
  order), a sort direction is a string, and the \<^verbatim>\<open>paginate\<close> object is its properties
  \<^verbatim>\<open>page\<close> and \<^verbatim>\<open>limit\<close>, which are any values, \<^verbatim>\<open>undefined\<close> when absent. Where \<^verbatim>\<open>page\<close> and
  \<^verbatim>\<open>limit\<close> are integers the exact arithmetic of the model is that of the code: a product
  or sum too large to be exact is past the end of every array, as its rounding is.
\<close>

record paginate =
  page :: jsval
  limit :: jsval

record query =
  filter_q :: "(string \<times> jsval) list"
  sort_q :: "(string \<times> string) list"
  paginate_q :: paginate

text \<open>\<^verbatim>\<open>toLowerCase\<close> and \<^verbatim>\<open>toUpperCase\<close>, on the ASCII letters.\<close>

definition lower_char :: "char \<Rightarrow> char" where
  "lower_char c =
     (case map_of (zip ''ABCDEFGHIJKLMNOPQRSTUVWXYZ'' ''abcdefghijklmnopqrstuvwxyz'') c of
        Some l \<Rightarrow> l
      | None \<Rightarrow> c)"

definition upper_char :: "char \<Rightarrow> char" where
  "upper_char c =
     (case map_of (zip ''abcdefghijklmnopqrstuvwxyz'' ''ABCDEFGHIJKLMNOPQRSTUVWXYZ'') c of
        Some u \<Rightarrow> u
      | None \<Rightarrow> c)"

definition toLowerCase :: "string \<Rightarrow> string" where
  "toLowerCase s = map lower_char s"

definition toUpperCase :: "string \<Rightarrow> string" where
  "toUpperCase s = map upper_char s"

text \<open>
  The filter loop: \<^verbatim>\<open>for (const key in filter) if (item[key] != filter[key]) { match =
  false; break; }\<close>.
\<close>

fun matches :: "host \<Rightarrow> jsval \<Rightarrow> (string \<times> jsval) list \<Rightarrow> string list \<Rightarrow> bool" where
  "matches h item flt [] = True"
| "matches h item flt (key # keys) =
     (if \<not> loose_eq h (get_prop item key) (get_prop (JObj flt) key) then False
      else matches h item flt keys)"

text \<open>The comparison function handed to \<^verbatim>\<open>results.sort\<close>.\<close>

definition comparator :: "host \<Rightarrow> string \<Rightarrow> string \<Rightarrow> jsval \<Rightarrow> jsval \<Rightarrow> int" where
  "comparator h sortKey ord a b =
     (if js_less h (get_prop a sortKey) (get_prop b sortKey) then (if ord = ''asc'' then -1 else 1)
      else if js_less h (get_prop b sortKey) (get_prop a sortKey) then (if ord = ''asc'' then 1 else -1)
      else 0)"

text \<open>
  \<^verbatim>\<open>Array.prototype.sort\<close> with a comparison function is a stable sort. The model is the
  stable insertion sort: an element goes in front of the first later element it does not
  compare greater than. (For a comparison function that is not consistent ECMAScript
  leaves the order to the implementation.)
\<close>

fun insert_sorted :: "('a \<Rightarrow> 'a \<Rightarrow> int) \<Rightarrow> 'a \<Rightarrow> 'a list \<Rightarrow> 'a list" where
  "insert_sorted cmp x [] = [x]"
| "insert_sorted cmp x (y # ys) =
     (if cmp x y \<le> 0 then x # y # ys else y # insert_sorted cmp x ys)"

definition array_sort :: "('a \<Rightarrow> 'a \<Rightarrow> int) \<Rightarrow> 'a list \<Rightarrow> 'a list" where
  "array_sort cmp xs = foldr (insert_sorted cmp) xs []"

text \<open>
  \<^verbatim>\<open>arr.slice(start, stop)\<close>. Each argument becomes a number and then an integer or an
  infinity (\<open>NaN\<close> becomes 0, a fraction is cut off towards 0); a negative index counts
  from the end, both ends are clamped to the array, and an absent \<^verbatim>\<open>stop\<close> is the length.
\<close>

fun ToIntegerOrInfinity :: "jsnum \<Rightarrow> jsnum" where
  "ToIntegerOrInfinity NaN = Fin 0"
| "ToIntegerOrInfinity PosInf = PosInf"
| "ToIntegerOrInfinity NegInf = NegInf"
| "ToIntegerOrInfinity (Fin x) = Fin (of_int (if 0 \<le> x then \<lfloor>x\<rfloor> else \<lceil>x\<rceil>))"

definition relative_index :: "nat \<Rightarrow> jsnum \<Rightarrow> nat" where
  "relative_index len n =
     (case ToIntegerOrInfinity n of
        NegInf \<Rightarrow> 0
      | PosInf \<Rightarrow> len
      | Fin x \<Rightarrow> (if x < 0 then nat (max (int len + \<lfloor>x\<rfloor>) 0) else min (nat \<lfloor>x\<rfloor>) len)
      | NaN \<Rightarrow> 0)"

definition slice :: "host \<Rightarrow> 'a list \<Rightarrow> jsval \<Rightarrow> jsval \<Rightarrow> 'a list" where
  "slice h xs start stop =
     (let len = length xs;
          k = relative_index len (ToNumber h start);
          final = (if stop = JUndefined then len else relative_index len (ToNumber h stop))
      in take (final - k) (drop k xs))"

text \<open>The three steps of \<^verbatim>\<open>find\<close>, in the order the cursor callback runs them.\<close>

definition filter_step :: "host \<Rightarrow> query \<Rightarrow> jsval list \<Rightarrow> jsval list" where
  "filter_step h q records =
     filter (\<lambda>item. matches h item (filter_q q) (map fst (filter_q q))) records"

definition sort_step :: "host \<Rightarrow> query \<Rightarrow> jsval list \<Rightarrow> jsval list" where
  "sort_step h q results =
     (case sort_q q of
        [] \<Rightarrow> results
      | (sortKey, dir) # rest \<Rightarrow>
          if sortKey \<noteq> [] then array_sort (comparator h sortKey (toLowerCase dir)) results
          else results)"

text \<open>
  The pagination: \<^verbatim>\<open>if (paginate.page && paginate.limit) { const page = Math.max(1,
  paginate.page); const limit = paginate.limit; const startIndex = (page - 1) * limit;
  results = results.slice(startIndex, startIndex + limit); }\<close>. \<^verbatim>\<open>Math.max\<close>, \<^verbatim>\<open>-\<close> and \<^verbatim>\<open>*\<close>
  turn their operands into numbers; \<^verbatim>\<open>+\<close> concatenates when \<^verbatim>\<open>limit\<close> is a string.
\<close>

definition paginate_step :: "host \<Rightarrow> query \<Rightarrow> jsval list \<Rightarrow> jsval list" where
  "paginate_step h q results =
     (if truthy (page (paginate_q q)) \<and> truthy (limit (paginate_q q))
      then (let pg = Math_max (Fin 1) (ToNumber h (page (paginate_q q)));
                lim = limit (paginate_q q);
                startIndex = num_mul (num_sub pg (Fin 1)) (ToNumber h lim)
            in slice h results (JNum startIndex) (js_plus h (JNum startIndex) lim))
      else results)"

definition DbWrapper_find :: "host \<Rightarrow> jsval list \<Rightarrow> query \<Rightarrow> jsval list" where
  "DbWrapper_find h records q = paginate_step h q (sort_step h q (filter_step h q records))"

section \<open>decodeURIComponent\<close>

text \<open>
  \<^verbatim>\<open>decodeURIComponent\<close> is the one host function the router's result depends on, so it is
  written out (the \<^verbatim>\<open>Decode\<close> operation of ECMAScript with an empty set of preserved
  escapes). \<open>None\<close> is the \<^verbatim>\<open>URIError\<close> it throws. Every \<^verbatim>\<open>%\<close> must be followed by two
  hexadecimal digits; an octet below 128 is its character; a larger octet must start a
  well-formed UTF-8 sequence, all of whose octets are escaped.
\<close>

definition hex_digit :: "char \<Rightarrow> nat option" where
  "hex_digit c =
     (let n = (of_char c :: nat) in
      if 48 \<le> n \<and> n \<le> 57 then Some (n - 48)
      else if 65 \<le> n \<and> n \<le> 70 then Some (n - 55)
      else if 97 \<le> n \<and> n \<le> 102 then Some (n - 87)
      else None)"

datatype piece = Plain char | Escaped nat

text \<open>The string as a sequence of plain characters and escaped octets.\<close>

fun pieces :: "string \<Rightarrow> piece list option" where
  "pieces [] = Some []"
| "pieces (c # cs) =
     (if c \<noteq> CHR ''%'' then map_option ((#) (Plain c)) (pieces cs)
      else (case cs of
              a # b # rest \<Rightarrow>
                (case (hex_digit a, hex_digit b) of
                   (Some x, Some y) \<Rightarrow> map_option ((#) (Escaped (16 * x + y))) (pieces rest)
                 | _ \<Rightarrow> None)
            | _ \<Rightarrow> None))"

text \<open>The number of leading one bits of an octet (5 stands for five or more).\<close>

definition leading_ones :: "nat \<Rightarrow> nat" where
  "leading_ones b =
     (if b < 128 then 0 else if b < 192 then 1 else if b < 224 then 2
      else if b < 240 then 3 else if b < 248 then 4 else 5)"

definition continuation :: "nat \<Rightarrow> bool" where
  "continuation b = (128 \<le> b \<and> b \<le> 191)"

text \<open>The well-formed UTF-8 sequences of two, three and four octets.\<close>

fun valid_utf8 :: "nat list \<Rightarrow> bool" where
  "valid_utf8 [b0, b1] = (194 \<le> b0 \<and> b0 \<le> 223 \<and> continuation b1)"
| "valid_utf8 [b0, b1, b2] =
     ((if b0 = 224 then 160 \<le> b1 \<and> b1 \<le> 191
       else if b0 = 237 then 128 \<le> b1 \<and> b1 \<le> 159
       else 225 \<le> b0 \<and> b0 \<le> 239 \<and> continuation b1)
      \<and> continuation b2)"
| "valid_utf8 [b0, b1, b2, b3] =
     ((if b0 = 240 then 144 \<le> b1 \<and> b1 \<le> 191
       else if b0 = 244 then 128 \<le> b1 \<and> b1 \<le> 143
       else 241 \<le> b0 \<and> b0 \<le> 243 \<and> continuation b1)
      \<and> continuation b2 \<and> continuation b3)"
| "valid_utf8 bs = False"

fun escaped_octets :: "piece list \<Rightarrow> nat list option" where
  "escaped_octets [] = Some []"
| "escaped_octets (Escaped b # us) = map_option ((#) b) (escaped_octets us)"
| "escaped_octets (Plain c # us) = None"

fun decode_pieces :: "piece list \<Rightarrow> string option" where
  "decode_pieces [] = Some []"
| "decode_pieces (Plain c # us) = map_option ((#) c) (decode_pieces us)"
| "decode_pieces (Escaped b # us) =
     (let n = leading_ones b in
      if n = 0 then map_option ((#) (char_of b)) (decode_pieces us)
      else if n = 1 \<or> 4 < n then None
      else if length us < n - 1 then None
      else (case escaped_octets (take (n - 1) us) of
              None \<Rightarrow> None
            | Some bs \<Rightarrow>
                if valid_utf8 (b # bs)
                then map_option ((@) (map char_of (b # bs))) (decode_pieces (drop (n - 1) us))
                else None))"

definition decodeURIComponent :: "string \<Rightarrow> string option" where
  "decodeURIComponent s = (case pieces s of None \<Rightarrow> None | Some us \<Rightarrow> decode_pieces us)"

section \<open>ResponseHelper\<close>

text \<open>
  The body of a response is the text \<^verbatim>\<open>JSON.stringify(data)\<close> or \<^verbatim>\<open>String(data)\<close>; the model
  keeps the value that was serialised. \<^verbatim>\<open>JSON.stringify(undefined)\<close> is \<^verbatim>\<open>undefined\<close>, which
  gives a response without a body.
\<close>

datatype body = Json jsval | Text string

record ResponseHelper =
  status_h :: int
  body_h :: "body option"
  headers_h :: "(string \<times> string) list"

record response =
  status :: int
  statusText :: string
  body :: "body option"
  headers :: "(string \<times> string) list"

datatype js_error = Error string | TypeError | RangeError | URIError

definition new_ResponseHelper :: ResponseHelper where
  "new_ResponseHelper =
     \<lparr>status_h = 200, body_h = None, headers_h = [(''Content-Type'', ''application/json'')]\<rparr>"

definition set_status :: "int \<Rightarrow> ResponseHelper \<Rightarrow> ResponseHelper" where
  "set_status code r = r\<lparr>status_h := code\<rparr>"

definition json :: "jsval \<Rightarrow> ResponseHelper \<Rightarrow> ResponseHelper" where
  "json data r =
     r\<lparr>body_h := (if data = JUndefined then None else Some (Json data)),
       headers_h := AList.update ''Content-Type'' ''application/json'' (headers_h r)\<rparr>"

definition send :: "host \<Rightarrow> jsval \<Rightarrow> ResponseHelper \<Rightarrow> ResponseHelper" where
  "send h data r =
     (if typeof data = ''object'' \<and> data \<noteq> JNull then json data r
      else r\<lparr>body_h := Some (Text (ToString h data)),
             headers_h := AList.update ''Content-Type'' ''text/plain'' (headers_h r)\<rparr>)"

definition statusTextMap :: "(int \<times> string) list" where
  "statusTextMap =
     [(200, ''OK''), (201, ''Created''), (204, ''No Content''), (400, ''Bad Request''),
      (404, ''Not Found''), (500, ''Internal Server Error'')]"

text \<open>
  \<^verbatim>\<open>build\<close> calls the \<^verbatim>\<open>Response\<close> constructor, which throws a \<^verbatim>\<open>RangeError\<close> for a status
  outside 200..599 and a \<^verbatim>\<open>TypeError\<close> for a body on a null-body status.
\<close>

definition build :: "ResponseHelper \<Rightarrow> js_error + response" where
  "build r =
     (if status_h r < 200 \<or> 599 < status_h r then Inl RangeError
      else if body_h r \<noteq> None \<and> status_h r \<in> {204, 205, 304} then Inl TypeError
      else Inr \<lparr>status = status_h r,
                statusText = (case map_of statusTextMap (status_h r) of Some t \<Rightarrow> t | None \<Rightarrow> []),
                body = body_h r, headers = headers_h r\<rparr>)"

text \<open>What \<^verbatim>\<open>build\<close> returns when it returns: a value the \<^verbatim>\<open>Response\<close> constructor accepts.\<close>

definition well_formed :: "response \<Rightarrow> bool" where
  "well_formed r =
     (200 \<le> status r \<and> status r \<le> 599 \<and> (body r = None \<or> status r \<notin> {204, 205, 304}))"

section \<open>MockApi: routes\<close>

text \<open>
  A handler is a function of the embedding application. It receives the request, the
  response helper and the database wrapper, and either completes, having changed the
  helper and the store, or throws (or rejects), having possibly changed the store. It is
  taken to settle. The store is one list of records per object store.
\<close>

type_synonym database = "(string \<times> jsval list) list"

record request =
  req_params :: "(string \<times> string) list"
  req_query :: "(string \<times> string) list"
  req_body :: jsval

datatype handler_outcome = Resolved ResponseHelper database | Rejected database

type_synonym handler = "request \<Rightarrow> ResponseHelper \<Rightarrow> database \<Rightarrow> handler_outcome"

record route =
  method_r :: string
  path :: string
  pathSegments :: "string list"
  params :: "(string \<times> nat) list"
  schema_r :: "schema option"
  handler_r :: handler

record MockApi =
  db :: "database option"
  routes :: "route list"

text \<open>\<^verbatim>\<open>s.split(sep)\<close> for a one-character separator; the result is never empty.\<close>

fun split :: "char \<Rightarrow> string \<Rightarrow> string list" where
  "split sep [] = [[]]"
| "split sep (c # cs) =
     (if c = sep then [] # split sep cs
      else (case split sep cs of s # ss \<Rightarrow> (c # s) # ss | [] \<Rightarrow> [[c]]))"

text \<open>\<^verbatim>\<open>path.split('/').filter(Boolean)\<close>: the non-empty segments.\<close>

definition segments :: "string \<Rightarrow> string list" where
  "segments p = filter (\<lambda>s. s \<noteq> []) (split CHR ''/'' p)"

definition startsWith_colon :: "string \<Rightarrow> bool" where
  "startsWith_colon s = (case s of c # cs \<Rightarrow> c = CHR '':'' | [] \<Rightarrow> False)"

text \<open>
  \<^verbatim>\<open>_register\<close>: \<^verbatim>\<open>api.get(path, handler)\<close> registers no schema (\<open>None\<close>),
  \<^verbatim>\<open>api.post(path, schema, handler)\<close> registers one. \<^verbatim>\<open>substring(1)\<close> is \<open>tl\<close>.
\<close>

definition MockApi_register ::
  "string \<Rightarrow> string \<Rightarrow> schema option \<Rightarrow> handler \<Rightarrow> MockApi \<Rightarrow> MockApi" where
  "MockApi_register m p sch hdl api =
     api\<lparr>routes := routes api @
       [\<lparr>method_r = toUpperCase m, path = p, pathSegments = segments p,
         params = map (\<lambda>(i, seg). (tl seg, i))
                    (filter (\<lambda>(i, seg). startsWith_colon seg) (List.enumerate 0 (segments p))),
         schema_r = sch, handler_r = hdl\<rparr>]\<rparr>"

text \<open>
  The inner loop of \<^verbatim>\<open>_findRoute\<close> over the segment pairs of one route whose segment count
  is that of the request. \<open>Inl URIError\<close> is \<^verbatim>\<open>decodeURIComponent\<close> throwing, \<open>Inr None\<close> is
  \<^verbatim>\<open>match = false\<close>, and \<open>ps\<close> is the \<^verbatim>\<open>params\<close> object so far.
\<close>

fun match_segments ::
  "(string \<times> string) list \<Rightarrow> (string \<times> string) list \<Rightarrow> js_error + (string \<times> string) list option"
where
  "match_segments [] ps = Inr (Some ps)"
| "match_segments ((routeSegment, requestSegment) # rest) ps =
     (if startsWith_colon routeSegment
      then (case decodeURIComponent requestSegment of
              None \<Rightarrow> Inl URIError
            | Some v \<Rightarrow> match_segments rest (AList.update (tl routeSegment) v ps))
      else if routeSegment \<noteq> requestSegment then Inr None
      else match_segments rest ps)"

text \<open>The loop of \<^verbatim>\<open>_findRoute\<close> over the routes; \<open>Inr None\<close> is \<^verbatim>\<open>return null\<close>.\<close>

fun find_route ::
  "route list \<Rightarrow> string \<Rightarrow> string list \<Rightarrow> js_error + (route \<times> (string \<times> string) list) option"
where
  "find_route [] m requestSegments = Inr None"
| "find_route (r # rs) m requestSegments =
     (if method_r r \<noteq> m then find_route rs m requestSegments
      else if length (pathSegments r) \<noteq> length requestSegments then find_route rs m requestSegments
      else (case match_segments (zip (pathSegments r) requestSegments) [] of
              Inl e \<Rightarrow> Inl e
            | Inr None \<Rightarrow> find_route rs m requestSegments
            | Inr (Some ps) \<Rightarrow> Inr (Some (r, ps))))"

definition MockApi_findRoute ::
  "MockApi \<Rightarrow> string \<Rightarrow> string \<Rightarrow> js_error + (route \<times> (string \<times> string) list) option" where
  "MockApi_findRoute api m urlPath = find_route (routes api) m (segments urlPath)"

section \<open>MockApi.fetch\<close>

text \<open>
  The \<^verbatim>\<open>options\<close> argument of \<^verbatim>\<open>fetch\<close>: a method and a body, each a string or absent. The
  simulated delay only waits and is left out.
\<close>

record fetch_options =
  method_o :: "string option"
  body_o :: "string option"

text \<open>
  What one call of \<^verbatim>\<open>fetch\<close> does: it returns a response or throws, it leaves a store, and
  \<open>invoked\<close> lists the requests it handed to a handler.
\<close>

record fetch_result =
  outcome :: "js_error + response"
  store :: "database option"
  invoked :: "request list"

text \<open>\<^verbatim>\<open>Object.fromEntries(entries)\<close>: a later entry replaces an earlier one of its key.\<close>

definition fromEntries :: "(string \<times> string) list \<Rightarrow> (string \<times> string) list" where
  "fromEntries es = foldl (\<lambda>acc (k, v). AList.update k v acc) [] es"

text \<open>
  \<^verbatim>\<open>if (options.body) { try { body = JSON.parse(options.body) } catch (e) { body =
  options.body } }\<close>: the empty string is falsy.
\<close>

definition parse_body :: "host \<Rightarrow> string option \<Rightarrow> jsval" where
  "parse_body h b =
     (case b of
        None \<Rightarrow> JNull
      | Some t \<Rightarrow> if t = [] then JNull
                  else (case JSON_parse h t of Some v \<Rightarrow> v | None \<Rightarrow> JStr t))"

definition request_method :: "fetch_options \<Rightarrow> string" where
  "request_method opts =
     toUpperCase (case method_o opts of None \<Rightarrow> ''GET'' | Some m \<Rightarrow> if m = [] then ''GET'' else m)"

definition internal_server_error :: "js_error + response" where
  "internal_server_error =
     build (json (JObj [(''message'', JStr ''Internal Server Error'')])
              (set_status 500 new_ResponseHelper))"

text \<open>The \<^verbatim>\<open>try\<close> block: the handler runs, then \<^verbatim>\<open>res.build()\<close>; either may throw.\<close>

definition run_handler :: "route \<Rightarrow> request \<Rightarrow> database \<Rightarrow> fetch_result" where
  "run_handler r req d =
     (case handler_r r req new_ResponseHelper d of
        Resolved res d' \<Rightarrow>
          (case build res of
             Inr resp \<Rightarrow> \<lparr>outcome = Inr resp, store = Some d', invoked = [req]\<rparr>
           | Inl e \<Rightarrow> \<lparr>outcome = internal_server_error, store = Some d', invoked = [req]\<rparr>)
      | Rejected d' \<Rightarrow> \<lparr>outcome = internal_server_error, store = Some d', invoked = [req]\<rparr>)"

text \<open>\<^verbatim>\<open>const req = { params, query: Object.fromEntries(url.searchParams.entries()), body }\<close>.\<close>

definition request_of :: "host \<Rightarrow> url \<Rightarrow> fetch_options \<Rightarrow> (string \<times> string) list \<Rightarrow> request" where
  "request_of h u opts ps =
     \<lparr>req_params = ps, req_query = fromEntries (searchParams u),
      req_body = parse_body h (body_o opts)\<rparr>"

definition MockApi_fetch :: "host \<Rightarrow> MockApi \<Rightarrow> string \<Rightarrow> fetch_options \<Rightarrow> fetch_result" where
  "MockApi_fetch h api input opts =
     (case db api of
        None \<Rightarrow>
          \<lparr>outcome = Inl (Error ''MockApi is not initialized. Call .init() before use.''),
           store = None, invoked = []\<rparr>
      | Some d \<Rightarrow>
         (case URL_new h input of
            None \<Rightarrow> \<lparr>outcome = Inl TypeError, store = Some d, invoked = []\<rparr>
          | Some u \<Rightarrow>
             (case MockApi_findRoute api (request_method opts) (pathname u) of
                Inl e \<Rightarrow> \<lparr>outcome = Inl e, store = Some d, invoked = []\<rparr>
              | Inr None \<Rightarrow>
                  \<lparr>outcome = build (json (JObj [(''message'',
                       JStr (''Route '' @ request_method opts @ '' '' @ pathname u @ '' not found.''))])
                       (set_status 404 new_ResponseHelper)),
                   store = Some d, invoked = []\<rparr>
              | Inr (Some (r, ps)) \<Rightarrow>
                 (case schema_r r of
                    None \<Rightarrow> run_handler r (request_of h u opts ps) d
                  | Some sch \<Rightarrow>
                      if request_method opts \<in> set [''POST'', ''PUT'', ''PATCH''] \<and>
                         \<not> success (validateSchema h (parse_body h (body_o opts)) sch)
                      then \<lparr>outcome = build (json (JObj [(''message'', JStr ''Validation Error''),
                               (''errors'', errors (validateSchema h (parse_body h (body_o opts)) sch))])
                               (set_status 400 new_ResponseHelper)),
                            store = Some d, invoked = []\<rparr>
                      else run_handler r (request_of h u opts ps) d))))"

section \<open>A host for the examples\<close>

text \<open>
  The theorems below hold for every host. Their examples need one: it prints and reads
  the natural numbers in decimal, parses the JSON texts listed in \<open>example_json\<close>, and
  takes an absolute path without query or fragment as the \<^verbatim>\<open>pathname\<close> of its URL.
\<close>

function digits :: "nat \<Rightarrow> string" where
  "digits n = (if n < 10 then [char_of (48 + n)] else digits (n div 10) @ [char_of (48 + n mod 10)])"
  by pat_completeness auto
termination
  by (relation "measure id") auto

declare digits.simps [simp del]

definition example_number_text :: "jsnum \<Rightarrow> string" where
  "example_number_text n =
     (case n of
        NaN \<Rightarrow> ''NaN''
      | PosInf \<Rightarrow> ''Infinity''
      | NegInf \<Rightarrow> ''-Infinity''
      | Fin x \<Rightarrow> (if x < 0 then ''-'' else []) @ digits (nat \<lfloor>\<bar>x\<bar>\<rfloor>))"

fun digits_value :: "nat \<Rightarrow> string \<Rightarrow> nat option" where
  "digits_value acc [] = Some acc"
| "digits_value acc (c # cs) =
     (if 48 \<le> (of_char c :: nat) \<and> (of_char c :: nat) \<le> 57
      then digits_value (10 * acc + (of_char c - 48)) cs else None)"

definition example_number :: "string \<Rightarrow> jsnum" where
  "example_number s = (case digits_value 0 s of Some n \<Rightarrow> Fin (of_nat n) | None \<Rightarrow> NaN)"

definition example_json :: "(string \<times> jsval) list" where
  "example_json =
     [(''{\"title\":\"ok\",\"status\":\"draft\"}'',
       JObj [(''title'', JStr ''ok''), (''status'', JStr ''draft'')]),
      (''{\"title\":\"A New Post\",\"status\":\"draft\"}'',
       JObj [(''title'', JStr ''A New Post''), (''status'', JStr ''draft'')]),
      (''{}'', JObj [])]"

definition example_host :: host where
  "example_host =
     \<lparr>NumberToString = example_number_text, StringToNumber = example_number,
      JSON_parse = map_of example_json,
      URL_new = (\<lambda>s. Some \<lparr>pathname = s, searchParams = []\<rparr>)\<rparr>"

text \<open>A rule that declares nothing, to be updated field by field.\<close>

definition no_rule :: rule where
  "no_rule =
     \<lparr>type_f = None, required = False, minLength = None, maxLength = None, pattern = None,
      min_f = None, max_f = None, enum_f = None\<rparr>"

text \<open>
  Two handlers: one answers 201 with the request body, as the handlers of the example
  usage do once the record is stored, and one throws.
\<close>

definition reply_created :: handler where
  "reply_created req res d = Resolved (json (req_body req) (set_status 201 res)) d"

definition throwing :: handler where
  "throwing req res d = Rejected d"

text \<open>
  The schema and the instance of the examples: \<^verbatim>\<open>POST /posts\<close> validates a title of at
  least five characters and a status of the enum; \<^verbatim>\<open>GET /posts/:id\<close> has a handler that
  throws. The store is open and holds an empty \<^verbatim>\<open>posts\<close>.
\<close>

definition post_schema :: schema where
  "post_schema =
     [(''title'', no_rule\<lparr>type_f := Some ''string'', required := True, minLength := Some (Fin 5)\<rparr>),
      (''status'', no_rule\<lparr>type_f := Some ''string'', required := True,
                          enum_f := Some [JStr ''draft'', JStr ''published'']\<rparr>)]"

definition example_api :: MockApi where
  "example_api =
     MockApi_register ''get'' ''/posts/:id'' None throwing
       (MockApi_register ''post'' ''/posts'' (Some post_schema) reply_created
          \<lparr>db = Some [(''posts'', [])], routes = []\<rparr>)"

section \<open>Properties of validateSchema\<close>

text \<open>The keys of the \<^verbatim>\<open>errors\<close> object of a result (none when it is \<^verbatim>\<open>null\<close>).\<close>

definition error_keys :: "validation_result \<Rightarrow> string list" where
  "error_keys r = (case errors r of JObj es \<Rightarrow> map fst es | _ \<Rightarrow> [])"

text \<open>The shape the data model gives an entry of \<^verbatim>\<open>errors\<close>: an array of strings.\<close>

fun is_string_list :: "jsval \<Rightarrow> bool" where
  "is_string_list (JArr xs) = list_all is_string xs"
| "is_string_list v = False"

lemma validate_fields_untouched:
  "map_of errs k = None \<Longrightarrow>
   (\<And>rule. map_of schema k = Some rule \<Longrightarrow> fieldErrors h rule (get_prop data k) = []) \<Longrightarrow>
   map_of (validate_fields h data schema keys errs) k = None"
proof (induction keys arbitrary: errs)
  case Nil
  then show ?case by simp
next
  case (Cons key keys)
  show ?case
  proof (cases "map_of schema key")
    case None
    then show ?thesis using Cons by simp
  next
    case (Some rule)
    show ?thesis
    proof (cases "fieldErrors h rule (get_prop data key) = []")
      case True
      then show ?thesis using Some Cons by simp
    next
      case False
      then have "key \<noteq> k" using Some Cons.prems(2) by auto
      then have "map_of (AList.update key (JArr (map JStr (fieldErrors h rule (get_prop data key)))) errs) k = None"
        using Cons.prems(1) by (simp add: update_conv')
      then show ?thesis using Some False Cons.IH Cons.prems(2) by simp
    qed
  qed
qed

lemma fieldErrors_optional_nullish:
  "\<not> required rule \<Longrightarrow> nullish v \<Longrightarrow> fieldErrors h rule v = []"
  by (cases v) (simp_all add: fieldErrors_def)

lemma object_typeof: "is_object data \<Longrightarrow> typeof data = ''object'' \<and> data \<noteq> JNull"
  by (cases data) simp_all

lemma map_of_Some_key: "map_of flt k = Some v \<Longrightarrow> k \<in> fst ` set flt"
  by (auto dest!: map_of_SomeD intro: rev_image_eqI)

text \<open>
  A value whose type disagrees with the declared one gets the type error alone from the
  switch; a string or a number of the declared type gets the errors of its branch.
\<close>

lemma type_checks_mismatch:
  "type_f rule = Some t \<Longrightarrow> t \<noteq> [] \<Longrightarrow> typeof v \<noteq> t \<Longrightarrow>
   type_checks h rule v = [''Type must be '' @ [CHR 0x27] @ t @ [CHR 0x27]]"
  by (simp add: type_checks_def)

lemma type_checks_string:
  "type_f rule = Some ''string'' \<Longrightarrow> type_checks h rule (JStr s) = string_checks h rule s"
  by (simp add: type_checks_def)

lemma type_checks_number:
  "type_f rule = Some ''number'' \<Longrightarrow> type_checks h rule (JNum n) = number_checks h rule n"
  by (simp add: type_checks_def)

text \<open>The enum test follows the type test and the switch, whatever they found.\<close>

lemma fieldErrors_present:
  "\<not> nullish v \<Longrightarrow> fieldErrors h rule v = type_checks h rule v @ enum_checks h rule v"
  by (cases v) (simp_all add: fieldErrors_def)

lemma fieldErrors_required:
  "required rule \<Longrightarrow> nullish v \<Longrightarrow> fieldErrors h rule v = [''Field is required'']"
  by (cases v) (simp_all add: fieldErrors_def)

text \<open>The \<^verbatim>\<open>errors\<close> object after the loop: one entry for each key with field errors.\<close>

lemma validate_fields_map_of:
  "map_of (validate_fields h data schema keys errs) k =
     (case map_of schema k of
        None \<Rightarrow> map_of errs k
      | Some rule \<Rightarrow>
          if k \<in> set keys \<and> fieldErrors h rule (get_prop data k) \<noteq> []
          then Some (JArr (map JStr (fieldErrors h rule (get_prop data k))))
          else map_of errs k)"
proof (induction keys arbitrary: errs)
  case Nil
  then show ?case by (simp split: option.splits)
next
  case (Cons key keys)
  show ?case
    by (cases "map_of schema key"; cases "key = k")
      (auto simp: Cons.IH update_conv' split: option.splits)
qed

lemma validate_fields_empty_iff:
  "(validate_fields h data schema (map fst schema) [] = []) =
     (\<forall>key rule. map_of schema key = Some rule \<longrightarrow> fieldErrors h rule (get_prop data key) = [])"
proof -
  let ?errs = "validate_fields h data schema (map fst schema) []"
  have "(?errs = []) = (\<forall>k. map_of ?errs k = None)"
    by (cases ?errs) (auto simp: fun_eq_iff)
  also have "\<dots> = (\<forall>key rule. map_of schema key = Some rule \<longrightarrow> fieldErrors h rule (get_prop data key) = [])"
  proof (intro iffI allI impI)
    fix key rule
    assume a: "\<forall>k. map_of ?errs k = None" and b: "map_of schema key = Some rule"
    have "key \<in> set (map fst schema)" using map_of_Some_key [OF b] by simp
    then show "fieldErrors h rule (get_prop data key) = []"
      using a [rule_format, of key] b by (simp add: validate_fields_map_of split: if_splits)
  next
    fix k
    assume "\<forall>key rule. map_of schema key = Some rule \<longrightarrow> fieldErrors h rule (get_prop data key) = []"
    then show "map_of ?errs k = None"
      by (simp add: validate_fields_map_of split: option.splits)
  qed
  finally show ?thesis .
qed

text \<open>For an object the validation succeeds exactly when no field has an error.\<close>

lemma validateSchema_success_iff:
  assumes "is_object data"
  shows "success (validateSchema h data schema) =
           (\<forall>key rule. map_of schema key = Some rule \<longrightarrow> fieldErrors h rule (get_prop data key) = [])"
  using object_typeof [OF assms] validate_fields_empty_iff [of h data schema]
  by (simp add: validateSchema_def Let_def)

text \<open>A field with errors is mapped to the array of its messages, in their order.\<close>

lemma validateSchema_field_errors:
  assumes "is_object data" and "map_of schema key = Some rule"
    and "fieldErrors h rule (get_prop data key) \<noteq> []"
  shows "get_prop (errors (validateSchema h data schema)) key =
           JArr (map JStr (fieldErrors h rule (get_prop data key)))"
proof -
  let ?errs = "validate_fields h data schema (map fst schema) []"
  have k: "key \<in> set (map fst schema)" using map_of_Some_key [OF assms(2)] by simp
  have m: "map_of ?errs key = Some (JArr (map JStr (fieldErrors h rule (get_prop data key))))"
    using assms(2,3) k by (simp add: validate_fields_map_of)
  then have "?errs \<noteq> []" by auto
  then show ?thesis
    using object_typeof [OF assms(1)] m by (simp add: validateSchema_def Let_def)
qed

lemma is_string_list_messages: "is_string_list (JArr (map JStr ms))"
  by (simp add: list_all_iff)

text \<open>
  C10. A rule that is not marked required raises no error for a field whose value in the
  record is \<^verbatim>\<open>null\<close> or missing, whatever type, constraints or enum the rule declares: the
  \<^verbatim>\<open>fieldErrors\<close> of that key are empty, and the result has no entry for the key.
\<close>

theorem optional_null_field_has_no_error:
  assumes "map_of schema key = Some rule" and "\<not> required rule"
    and "nullish (get_prop (JObj props) key)"
  shows "fieldErrors h rule (get_prop (JObj props) key) = [] \<and>
         key \<notin> set (error_keys (validateSchema h (JObj props) schema))"
proof -
  have fe: "fieldErrors h rule (get_prop (JObj props) key) = []"
    using assms(2,3) by (rule fieldErrors_optional_nullish)
  have "map_of (validate_fields h (JObj props) schema (map fst schema) []) key = None"
    by (rule validate_fields_untouched) (use assms(1) fe in auto)
  then have "key \<notin> fst ` set (validate_fields h (JObj props) schema (map fst schema) [])"
    by (simp add: map_of_eq_None_iff)
  then show ?thesis
    using fe by (auto simp: validateSchema_def error_keys_def Let_def)
qed

text \<open>
  The rule of the example declares a type, a length and an enum, none of which \<^verbatim>\<open>null\<close>
  satisfies; the record \<^verbatim>\<open>{status: null}\<close> is accepted.
\<close>

theorem optional_null_field_has_no_error_witness:
  "map_of [(''status'', no_rule\<lparr>type_f := Some ''string'', minLength := Some (Fin 3),
                                 enum_f := Some [JStr ''draft'', JStr ''published'']\<rparr>)] ''status''
     = Some (no_rule\<lparr>type_f := Some ''string'', minLength := Some (Fin 3),
                      enum_f := Some [JStr ''draft'', JStr ''published'']\<rparr>)
   \<and> \<not> required (no_rule\<lparr>type_f := Some ''string'', minLength := Some (Fin 3),
                            enum_f := Some [JStr ''draft'', JStr ''published'']\<rparr>)
   \<and> nullish (get_prop (JObj [(''status'', JNull)]) ''status'')
   \<and> ''status'' \<notin> set (error_keys (validateSchema example_host (JObj [(''status'', JNull)])
        [(''status'', no_rule\<lparr>type_f := Some ''string'', minLength := Some (Fin 3),
                                enum_f := Some [JStr ''draft'', JStr ''published'']\<rparr>)]))
   \<and> success (validateSchema example_host (JObj [(''status'', JNull)])
        [(''status'', no_rule\<lparr>type_f := Some ''string'', minLength := Some (Fin 3),
                                enum_f := Some [JStr ''draft'', JStr ''published'']\<rparr>)])"
proof -
  let ?rule = "no_rule\<lparr>type_f := Some ''string'', minLength := Some (Fin 3),
                       enum_f := Some [JStr ''draft'', JStr ''published'']\<rparr>"
  have a: "map_of [(''status'', ?rule)] ''status'' = Some ?rule" by simp
  have b: "\<not> required ?rule" by (simp add: no_rule_def)
  have d: "nullish (get_prop (JObj [(''status'', JNull)]) ''status'')" by simp
  have e: "success (validateSchema example_host (JObj [(''status'', JNull)]) [(''status'', ?rule)])"
    by (simp add: validateSchema_def fieldErrors_def no_rule_def)
  show ?thesis
    using a b d e optional_null_field_has_no_error [OF a b d, of example_host] by simp
qed

text \<open>
  C5. The length tests of the string branch are guarded by the truthiness of the bound
  (\<^verbatim>\<open>rule.maxLength && ...\<close>), so a declared \<^verbatim>\<open>maxLength: 0\<close> is never tested: the string
  \<^verbatim>\<open>abc\<close> violates it and the record is accepted with no error. The bounds of the number
  branch are guarded by \<^verbatim>\<open>!== undefined\<close>, and a declared \<^verbatim>\<open>max: 0\<close> is tested.
\<close>

theorem maxLength_zero_is_not_tested:
  "validateSchema h (JObj [(''name'', JStr ''abc'')])
     [(''name'', no_rule\<lparr>type_f := Some ''string'', maxLength := Some (Fin 0)\<rparr>)]
     = \<lparr>success = True, errors = JNull\<rparr>
   \<and> validateSchema h (JObj [(''count'', JNum (Fin 1))])
     [(''count'', no_rule\<lparr>type_f := Some ''number'', max_f := Some (Fin 0)\<rparr>)]
     = \<lparr>success = False,
        errors = JObj [(''count'', JArr [JStr (''Maximum value is '' @ NumberToString h (Fin 0))])]\<rparr>"
  by (simp add: validateSchema_def fieldErrors_def type_checks_def string_checks_def
      number_checks_def enum_checks_def truthy_num_def no_rule_def)

text \<open>
  C9. For a body that is not an object the result maps the key \<^verbatim>\<open>_global\<close> to one
  string, not to an array of strings as the \<^verbatim>\<open>fieldErrors\<close> of a field are.
\<close>

theorem global_error_is_a_bare_string:
  "validateSchema h (JStr ''hello'') schema
     = \<lparr>success = False,
        errors = JObj [(''_global'', JStr ''Request body was expected to be an object.'')]\<rparr>
   \<and> \<not> is_string_list (get_prop (errors (validateSchema h (JStr ''hello'') schema)) ''_global'')"
  by (simp add: validateSchema_def)

section \<open>Properties of DbWrapper.find\<close>

subsection \<open>Filtering\<close>

lemma matches_iff:
  "matches h item flt keys =
     list_all (\<lambda>k. loose_eq h (get_prop item k) (get_prop (JObj flt) k)) keys"
  by (induction keys) simp_all

lemma matches_all_pairs:
  "matches h item flt (map fst flt) =
     (\<forall>k v. map_of flt k = Some v \<longrightarrow> loose_eq h (get_prop item k) v)"
proof -
  have "(\<forall>k \<in> fst ` set flt. loose_eq h (get_prop item k) (get_prop (JObj flt) k)) =
        (\<forall>k v. map_of flt k = Some v \<longrightarrow> loose_eq h (get_prop item k) v)"
  proof (intro iffI allI impI ballI)
    fix k v
    assume a: "\<forall>k \<in> fst ` set flt. loose_eq h (get_prop item k) (get_prop (JObj flt) k)"
      and b: "map_of flt k = Some v"
    from b have "k \<in> fst ` set flt" by (rule map_of_Some_key)
    with a b show "loose_eq h (get_prop item k) v" by force
  next
    fix k
    assume a: "\<forall>k v. map_of flt k = Some v \<longrightarrow> loose_eq h (get_prop item k) v"
      and b: "k \<in> fst ` set flt"
    from b obtain v where "map_of flt k = Some v"
      by (cases "map_of flt k") (auto simp: map_of_eq_None_iff)
    with a show "loose_eq h (get_prop item k) (get_prop (JObj flt) k)" by simp
  qed
  then show ?thesis by (simp add: matches_iff list_all_iff)
qed

text \<open>\<^verbatim>\<open>undefined == v\<close> holds exactly for \<^verbatim>\<open>undefined\<close> and \<^verbatim>\<open>null\<close>.\<close>

lemma loose_eq_undefined: "loose_eq h JUndefined v = nullish v"
  by (cases v) (simp_all add: loose_eq_def)

lemma loose_eq_num_str: "loose_eq h (JNum n) (JStr s) = num_eq n (StringToNumber h s)"
  by (simp add: loose_eq_def)

text \<open>
  C4, as the code has it. Without a sort and without pagination \<^verbatim>\<open>find\<close> returns, in the
  original order, exactly the records whose value at every key of the filter loosely
  equals the filter's value at that key. The equality is coercive: a number equals a
  string when it equals the number the string reads as. A record that lacks a filter key
  is excluded when the filter's value is neither \<^verbatim>\<open>undefined\<close> nor \<^verbatim>\<open>null\<close>.
\<close>

theorem find_keeps_the_loosely_equal_records:
  assumes "sort_q q = []" and "page (paginate_q q) = JUndefined" and "limit (paginate_q q) = JUndefined"
  shows "DbWrapper_find h records q =
           filter (\<lambda>item. \<forall>k v. map_of (filter_q q) k = Some v \<longrightarrow> loose_eq h (get_prop item k) v)
             records
         \<and> (\<forall>item k v. map_of (filter_q q) k = Some v \<and> get_prop item k = JUndefined \<and> \<not> nullish v
               \<longrightarrow> item \<notin> set (DbWrapper_find h records q))
         \<and> (\<forall>n s. loose_eq h (JNum n) (JStr s) = num_eq n (StringToNumber h s))"
proof -
  have eq: "DbWrapper_find h records q =
           filter (\<lambda>item. \<forall>k v. map_of (filter_q q) k = Some v \<longrightarrow> loose_eq h (get_prop item k) v)
             records"
    using assms
    by (simp add: DbWrapper_find_def paginate_step_def sort_step_def filter_step_def
        matches_all_pairs)
  have "item \<notin> set (DbWrapper_find h records q)"
    if "map_of (filter_q q) k = Some v" "get_prop item k = JUndefined" "\<not> nullish v" for item k v
  proof
    assume "item \<in> set (DbWrapper_find h records q)"
    then have "loose_eq h (get_prop item k) v" using eq that(1) by simp
    then show False using that(2,3) by (simp add: loose_eq_undefined)
  qed
  then show ?thesis using eq by (auto simp: loose_eq_num_str)
qed

text \<open>
  The filter \<^verbatim>\<open>{status: "draft"}\<close> over three posts: the two drafts are kept in their
  order, and the post without a status is excluded.
\<close>

theorem find_keeps_the_loosely_equal_records_witness:
  "sort_q \<lparr>filter_q = [(''status'', JStr ''draft'')], sort_q = [],
           paginate_q = \<lparr>page = JUndefined, limit = JUndefined\<rparr>\<rparr> = []
   \<and> DbWrapper_find example_host
        [JObj [(''id'', JStr ''p1''), (''status'', JStr ''draft'')],
         JObj [(''id'', JStr ''p2'')],
         JObj [(''id'', JStr ''p3''), (''status'', JStr ''published'')],
         JObj [(''id'', JStr ''p4''), (''status'', JStr ''draft'')]]
        \<lparr>filter_q = [(''status'', JStr ''draft'')], sort_q = [],
         paginate_q = \<lparr>page = JUndefined, limit = JUndefined\<rparr>\<rparr>
      = [JObj [(''id'', JStr ''p1''), (''status'', JStr ''draft'')],
         JObj [(''id'', JStr ''p4''), (''status'', JStr ''draft'')]]"
proof -
  let ?q = "\<lparr>filter_q = [(''status'', JStr ''draft'')], sort_q = [],
             paginate_q = \<lparr>page = JUndefined, limit = JUndefined\<rparr>\<rparr>"
  have a: "sort_q ?q = []" and b: "page (paginate_q ?q) = JUndefined"
    and c: "limit (paginate_q ?q) = JUndefined" by simp_all
  have l: "loose_eq h (JStr s) (JStr t) = (s = t)" for h s t by (simp add: loose_eq_def)
  show ?thesis
    using find_keeps_the_loosely_equal_records [OF a b c, of example_host]
    by (simp add: l loose_eq_undefined)
qed

text \<open>
  C4 as stated fails for the filter value \<^verbatim>\<open>null\<close>, which is not \<^verbatim>\<open>undefined\<close>: the record
  has no \<^verbatim>\<open>deletedAt\<close> and the filter \<^verbatim>\<open>{deletedAt: null}\<close> keeps it, because
  \<^verbatim>\<open>undefined == null\<close>.
\<close>

theorem null_filter_keeps_record_without_key:
  "get_prop (JObj [(''id'', JStr ''p1'')]) ''deletedAt'' = JUndefined
   \<and> JNull \<noteq> JUndefined
   \<and> DbWrapper_find example_host [JObj [(''id'', JStr ''p1'')]]
        \<lparr>filter_q = [(''deletedAt'', JNull)], sort_q = [],
         paginate_q = \<lparr>page = JUndefined, limit = JUndefined\<rparr>\<rparr>
      = [JObj [(''id'', JStr ''p1'')]]"
  by (simp add: DbWrapper_find_def paginate_step_def sort_step_def filter_step_def
      loose_eq_undefined)

subsection \<open>Pagination\<close>









subsection \<open>Sorting\<close>

lemma str_less_irrefl: "\<not> str_less s s"
  by (induction s) simp_all

lemma num_lt_irrefl: "\<not> num_lt n n"
  by (cases n) simp_all

lemma js_less_irrefl: "\<not> js_less h v v"
  by (cases "ToPrimitive h v") (simp_all add: js_less_def str_less_irrefl num_lt_irrefl)

lemma str_less_asym: "str_less s t \<Longrightarrow> \<not> str_less t s"
  by (induction s t rule: str_less.induct) (auto split: if_splits)

lemma num_lt_asym: "num_lt a b \<Longrightarrow> \<not> num_lt b a"
  by (cases a; cases b) simp_all

lemma js_less_asym: "js_less h a b \<Longrightarrow> \<not> js_less h b a"
  by (cases "ToPrimitive h a"; cases "ToPrimitive h b")
    (auto simp: js_less_def dest: str_less_asym num_lt_asym)

text \<open>Two strings compare as strings, two numbers as numbers.\<close>

lemma js_less_strings: "js_less h (JStr s) (JStr t) = str_less s t"
  by (simp add: js_less_def)

lemma js_less_numbers: "js_less h (JNum m) (JNum n) = num_lt m n"
  by (simp add: js_less_def)

text \<open>Values of which neither is less than the other compare as equal.\<close>

lemma comparator_incomparable:
  "\<not> js_less h (get_prop a k) (get_prop b k) \<Longrightarrow> \<not> js_less h (get_prop b k) (get_prop a k) \<Longrightarrow>
   comparator h k ord a b = 0"
  by (simp add: comparator_def)

lemma comparator_equal_keys:
  "get_prop a k = get_prop b k \<Longrightarrow> comparator h k ord a b = 0"
  by (simp add: comparator_def js_less_irrefl)

lemma comparator_total:
  "comparator h k ord a b \<le> 0 \<or> comparator h k ord b a \<le> 0"
  using js_less_asym [of h "get_prop a k" "get_prop b k"]
  by (auto simp: comparator_def)

lemma set_insert_sorted: "set (insert_sorted cmp x ys) = insert x (set ys)"
  by (induction ys) auto

lemma mset_insert_sorted: "mset (insert_sorted cmp x ys) = add_mset x (mset ys)"
  by (induction ys) auto

lemma array_sort_Nil: "array_sort cmp [] = []"
  by (simp add: array_sort_def)

lemma array_sort_Cons: "array_sort cmp (x # xs) = insert_sorted cmp x (array_sort cmp xs)"
  by (simp add: array_sort_def)

text \<open>The sorted array is a rearrangement of the array.\<close>

lemma mset_array_sort: "mset (array_sort cmp xs) = mset xs"
  by (induction xs) (simp_all add: array_sort_Nil array_sort_Cons mset_insert_sorted)

lemma filter_insert_sorted:
  "(P x \<Longrightarrow> \<forall>y \<in> set ys. P y \<longrightarrow> cmp x y \<le> 0) \<Longrightarrow>
   filter P (insert_sorted cmp x ys) = (if P x then x # filter P ys else filter P ys)"
  by (induction ys) auto

text \<open>The sort is stable: elements that compare as equal keep their order.\<close>

lemma array_sort_stable:
  assumes "\<And>x y. P x \<Longrightarrow> P y \<Longrightarrow> cmp x y \<le> 0"
  shows "filter P (array_sort cmp xs) = filter P xs"
proof (induction xs)
  case Nil
  then show ?case by (simp add: array_sort_Nil)
next
  case (Cons x xs)
  have "filter P (insert_sorted cmp x (array_sort cmp xs)) =
        (if P x then x # filter P (array_sort cmp xs) else filter P (array_sort cmp xs))"
    by (rule filter_insert_sorted) (use assms in blast)
  then show ?case using Cons by (simp add: array_sort_Cons)
qed

lemma insert_sorted_sorted:
  assumes "sorted_wrt (\<lambda>a b. cmp a b \<le> 0) ys"
    and "\<And>a b c. a \<in> insert x (set ys) \<Longrightarrow> b \<in> insert x (set ys) \<Longrightarrow> c \<in> insert x (set ys) \<Longrightarrow>
           cmp a b \<le> 0 \<Longrightarrow> cmp b c \<le> 0 \<Longrightarrow> cmp a c \<le> 0"
    and "\<And>a b. cmp a b \<le> 0 \<or> cmp b a \<le> 0"
  shows "sorted_wrt (\<lambda>a b. cmp a b \<le> 0) (insert_sorted cmp x ys)"
  using assms(1,2)
proof (induction ys)
  case Nil
  then show ?case by simp
next
  case (Cons y ys)
  show ?case
  proof (cases "cmp x y \<le> 0")
    case True
    have "cmp x z \<le> 0" if "z \<in> set ys" for z
      using Cons.prems(1) that True Cons.prems(2) [of x y z] by auto
    then show ?thesis using True Cons.prems(1) by auto
  next
    case False
    then have yx: "cmp y x \<le> 0" using assms(3) [of x y] by auto
    have "sorted_wrt (\<lambda>a b. cmp a b \<le> 0) (insert_sorted cmp x ys)"
      using Cons.prems by (intro Cons.IH) auto
    then show ?thesis using False yx Cons.prems(1) by (auto simp: set_insert_sorted)
  qed
qed

text \<open>
  Where the comparison function is transitive on the elements, the sorted array is in
  order: no element compares greater than a later one.
\<close>

lemma array_sort_sorted:
  assumes "\<And>a b c. a \<in> set xs \<Longrightarrow> b \<in> set xs \<Longrightarrow> c \<in> set xs \<Longrightarrow>
             cmp a b \<le> 0 \<Longrightarrow> cmp b c \<le> 0 \<Longrightarrow> cmp a c \<le> 0"
    and "\<And>a b. cmp a b \<le> 0 \<or> cmp b a \<le> 0"
  shows "sorted_wrt (\<lambda>a b. cmp a b \<le> 0) (array_sort cmp xs)"
  using assms(1)
proof (induction xs)
  case Nil
  then show ?case by (simp add: array_sort_Nil)
next
  case (Cons x xs)
  have s: "set (array_sort cmp xs) = set xs"
    using mset_array_sort [of cmp xs] by (metis set_mset_mset)
  have "sorted_wrt (\<lambda>a b. cmp a b \<le> 0) (insert_sorted cmp x (array_sort cmp xs))"
  proof (rule insert_sorted_sorted)
    show "sorted_wrt (\<lambda>a b. cmp a b \<le> 0) (array_sort cmp xs)"
      using Cons.prems by (intro Cons.IH) auto
  next
    fix a b c
    assume "a \<in> insert x (set (array_sort cmp xs))" "b \<in> insert x (set (array_sort cmp xs))"
      "c \<in> insert x (set (array_sort cmp xs))" "cmp a b \<le> 0" "cmp b c \<le> 0"
    then show "cmp a c \<le> 0" using Cons.prems [of a b c] s by auto
  next
    fix a b show "cmp a b \<le> 0 \<or> cmp b a \<le> 0" by (rule assms(2))
  qed
  then show ?case by (simp add: array_sort_Cons)
qed

text \<open>
  With a sort key that is not the empty string, the sort step rearranges the records,
  keeps the order of the records that have the same value at the key, and puts them in
  the order of the comparison function where that is transitive on them.
\<close>

lemma sort_step_stable_sorted:
  assumes "sort_q q = (k, dir) # rest" and "k \<noteq> []"
  shows "mset (sort_step h q xs) = mset xs"
    and "filter (\<lambda>r. get_prop r k = v) (sort_step h q xs) = filter (\<lambda>r. get_prop r k = v) xs"
    and "(\<And>a b c. a \<in> set xs \<Longrightarrow> b \<in> set xs \<Longrightarrow> c \<in> set xs \<Longrightarrow>
            comparator h k (toLowerCase dir) a b \<le> 0 \<Longrightarrow>
            comparator h k (toLowerCase dir) b c \<le> 0 \<Longrightarrow>
            comparator h k (toLowerCase dir) a c \<le> 0) \<Longrightarrow>
         sorted_wrt (\<lambda>a b. comparator h k (toLowerCase dir) a b \<le> 0) (sort_step h q xs)"
proof -
  have s: "sort_step h q xs = array_sort (comparator h k (toLowerCase dir)) xs"
    using assms by (simp add: sort_step_def)
  show "mset (sort_step h q xs) = mset xs"
    by (simp add: s mset_array_sort)
  show "filter (\<lambda>r. get_prop r k = v) (sort_step h q xs) = filter (\<lambda>r. get_prop r k = v) xs"
    unfolding s by (rule array_sort_stable) (simp add: comparator_equal_keys)
  show "sorted_wrt (\<lambda>a b. comparator h k (toLowerCase dir) a b \<le> 0) (sort_step h q xs)"
    if "\<And>a b c. a \<in> set xs \<Longrightarrow> b \<in> set xs \<Longrightarrow> c \<in> set xs \<Longrightarrow>
            comparator h k (toLowerCase dir) a b \<le> 0 \<Longrightarrow>
            comparator h k (toLowerCase dir) b c \<le> 0 \<Longrightarrow>
            comparator h k (toLowerCase dir) a c \<le> 0"
    unfolding s by (rule array_sort_sorted) (use that comparator_total in blast)+
qed

text \<open>
  C7. \<^verbatim>\<open>find\<close> tests the sort key for truthiness (\<^verbatim>\<open>if (sortKey)\<close>), so the sort directive
  \<^verbatim>\<open>{"": "asc"}\<close>, whose one key is the empty string, is ignored: the two records come back
  in cursor order, 2 before 1. The same records under the key \<^verbatim>\<open>n\<close> are sorted.
\<close>

theorem empty_sort_key_is_ignored:
  "DbWrapper_find h [JObj [('''', JNum (Fin 2))], JObj [('''', JNum (Fin 1))]]
     \<lparr>filter_q = [], sort_q = [('''', ''asc'')], paginate_q = \<lparr>page = JUndefined, limit = JUndefined\<rparr>\<rparr>
     = [JObj [('''', JNum (Fin 2))], JObj [('''', JNum (Fin 1))]]
   \<and> DbWrapper_find h [JObj [(''n'', JNum (Fin 2))], JObj [(''n'', JNum (Fin 1))]]
     \<lparr>filter_q = [], sort_q = [(''n'', ''asc'')], paginate_q = \<lparr>page = JUndefined, limit = JUndefined\<rparr>\<rparr>
     = [JObj [(''n'', JNum (Fin 1))], JObj [(''n'', JNum (Fin 2))]]"
  by (simp add: DbWrapper_find_def paginate_step_def sort_step_def filter_step_def
      array_sort_def comparator_def js_less_def toLowerCase_def lower_char_def)

section \<open>Properties of the router\<close>

lemma find_route_skip:
  "find_route [r'] m segs = Inr None \<Longrightarrow> find_route (r' # rs) m segs = find_route rs m segs"
  by (auto split: if_splits sum.splits option.splits)

lemma find_route_hit:
  "find_route [r] m segs = Inr (Some (r, ps)) \<Longrightarrow> find_route (r # post) m segs = Inr (Some (r, ps))"
  by (auto split: if_splits sum.splits option.splits)

text \<open>A route that matches wins over every later route when no earlier route matches.\<close>

lemma find_route_first_match:
  "list_all (\<lambda>r'. find_route [r'] m segs = Inr None) pre \<Longrightarrow>
   find_route [r] m segs = Inr (Some (r, ps)) \<Longrightarrow>
   find_route (pre @ r # post) m segs = Inr (Some (r, ps))"
proof (induction pre)
  case Nil
  then show ?case using find_route_hit [of r m segs ps post] by simp
next
  case (Cons a pre)
  then have "find_route [a] m segs = Inr None" by simp
  then have "find_route (a # pre @ r # post) m segs = find_route (pre @ r # post) m segs"
    by (rule find_route_skip)
  then show ?case using Cons by simp
qed

lemma find_route_append_None:
  "find_route rs m segs = Inr None \<Longrightarrow> find_route (rs @ rs') m segs = find_route rs' m segs"
  by (induction rs) (auto split: if_splits sum.splits option.splits)

text \<open>What a match is: a registered route of the method and the segment count.\<close>

lemma find_route_sound:
  "find_route rs m segs = Inr (Some (r, ps)) \<Longrightarrow>
   r \<in> set rs \<and> method_r r = m \<and> length (pathSegments r) = length segs \<and>
   match_segments (zip (pathSegments r) segs) [] = Inr (Some ps)"
  by (induction rs) (auto split: if_splits sum.splits option.splits)

text \<open>
  In a match a literal segment is the request segment, and the request segment of a
  parameter segment decodes.
\<close>

lemma match_segments_sound:
  "match_segments zs ps0 = Inr (Some ps) \<Longrightarrow> (rseg, qseg) \<in> set zs \<Longrightarrow>
   (if startsWith_colon rseg then decodeURIComponent qseg \<noteq> None else rseg = qseg)"
  by (induction zs ps0 rule: match_segments.induct) (auto split: if_splits option.splits)

lemma match_segments_keeps:
  "match_segments zs ps0 = Inr (Some ps) \<Longrightarrow>
   list_all (\<lambda>(rseg, qseg). \<not> (startsWith_colon rseg \<and> tl rseg = name)) zs \<Longrightarrow>
   map_of ps name = map_of ps0 name"
  by (induction zs ps0 rule: match_segments.induct)
    (auto split: if_splits option.splits simp: update_conv')

text \<open>
  A parameter segment captures the decoded request segment under its name (the last
  segment of a name, should a pattern repeat one).
\<close>

lemma match_segments_captures:
  "match_segments (pre @ (rseg, qseg) # post) ps0 = Inr (Some ps) \<Longrightarrow>
   startsWith_colon rseg \<Longrightarrow>
   list_all (\<lambda>(r, q). \<not> (startsWith_colon r \<and> tl r = tl rseg)) post \<Longrightarrow>
   map_of ps (tl rseg) = decodeURIComponent qseg"
proof (induction pre arbitrary: ps0)
  case Nil
  then obtain v where v: "decodeURIComponent qseg = Some v"
    and m: "match_segments post (AList.update (tl rseg) v ps0) = Inr (Some ps)"
    by (auto split: option.splits)
  have "map_of ps (tl rseg) = map_of (AList.update (tl rseg) v ps0) (tl rseg)"
    using m Nil.prems(3) by (rule match_segments_keeps)
  then show ?case using v by (simp add: update_conv')
next
  case (Cons a pre)
  obtain r q where a: "a = (r, q)" by (cases a)
  show ?case
    using Cons.prems Cons.IH unfolding a
    by (auto split: if_splits option.splits)
qed

lemma segments_a_b: "segments ''/a/b'' = [''a'', ''b'']"
  by (simp add: segments_def)

lemma segments_a_x: "segments ''/a/:x'' = [''a'', '':x'']"
  by (simp add: segments_def)

lemma decode_b: "decodeURIComponent ''b'' = Some ''b''"
  by (simp add: decodeURIComponent_def)

text \<open>
  C2. Register \<^verbatim>\<open>/a/:x\<close> and later \<^verbatim>\<open>/a/b\<close>, after routes none of which matches the
  request. A request of the first route's method to \<^verbatim>\<open>/a/b\<close> is matched to the first
  route, with \<open>x = b\<close>. In general the first route in registration order that matches
  wins, whatever is registered after it.
\<close>

theorem first_registered_route_wins:
  assumes "MockApi_findRoute api (toUpperCase m) ''/a/b'' = Inr None"
  shows "MockApi_findRoute
           (MockApi_register m2 ''/a/b'' s2 h2 (MockApi_register m ''/a/:x'' s1 h1 api))
           (toUpperCase m) ''/a/b''
         = Inr (Some (\<lparr>method_r = toUpperCase m, path = ''/a/:x'', pathSegments = [''a'', '':x''],
                        params = [(''x'', 1)], schema_r = s1, handler_r = h1\<rparr>,
                      [(''x'', ''b'')]))
       \<and> (\<forall>pre r post m' segs ps.
             list_all (\<lambda>r'. find_route [r'] m' segs = Inr None) pre \<and>
             find_route [r] m' segs = Inr (Some (r, ps))
             \<longrightarrow> find_route (pre @ r # post) m' segs = Inr (Some (r, ps)))"
proof -
  let ?R1 = "\<lparr>method_r = toUpperCase m, path = ''/a/:x'', pathSegments = [''a'', '':x''],
              params = [(''x'', 1)], schema_r = s1, handler_r = h1\<rparr>"
  let ?R2 = "\<lparr>method_r = toUpperCase m2, path = ''/a/b'', pathSegments = [''a'', ''b''],
              params = [], schema_r = s2, handler_r = h2\<rparr>"
  have none: "find_route (routes api) (toUpperCase m) [''a'', ''b''] = Inr None"
    using assms by (simp add: MockApi_findRoute_def segments_a_b)
  have r1: "find_route (?R1 # rs) (toUpperCase m) [''a'', ''b''] = Inr (Some (?R1, [(''x'', ''b'')]))" for rs
    by (simp add: startsWith_colon_def decode_b)
  have reg: "routes (MockApi_register m2 ''/a/b'' s2 h2 (MockApi_register m ''/a/:x'' s1 h1 api))
      = routes api @ ?R1 # [?R2]"
    by (simp add: MockApi_register_def segments_a_b segments_a_x startsWith_colon_def enumerate_eq_zip)
  have concrete: "MockApi_findRoute
           (MockApi_register m2 ''/a/b'' s2 h2 (MockApi_register m ''/a/:x'' s1 h1 api))
           (toUpperCase m) ''/a/b'' = Inr (Some (?R1, [(''x'', ''b'')]))"
    unfolding MockApi_findRoute_def segments_a_b reg
    using find_route_append_None [OF none, of "?R1 # [?R2]"] r1 [of "[?R2]"] by simp
  show ?thesis
    using concrete find_route_first_match by blast
qed

text \<open>The two routes registered with \<^verbatim>\<open>api.get\<close> on a fresh instance.\<close>

theorem first_registered_route_wins_witness:
  "MockApi_findRoute \<lparr>db = None, routes = []\<rparr> (toUpperCase ''get'') ''/a/b'' = Inr None
   \<and> MockApi_findRoute
       (MockApi_register ''get'' ''/a/b'' None throwing
          (MockApi_register ''get'' ''/a/:x'' None reply_created \<lparr>db = None, routes = []\<rparr>))
       ''GET'' ''/a/b''
     = Inr (Some (\<lparr>method_r = ''GET'', path = ''/a/:x'', pathSegments = [''a'', '':x''],
                    params = [(''x'', 1)], schema_r = None, handler_r = reply_created\<rparr>,
                  [(''x'', ''b'')]))"
proof -
  have a: "MockApi_findRoute \<lparr>db = None, routes = []\<rparr> (toUpperCase ''get'') ''/a/b'' = Inr None"
    by (simp add: MockApi_findRoute_def)
  have u: "toUpperCase ''get'' = ''GET''"
    by (simp add: toUpperCase_def upper_char_def)
  show ?thesis
    using a first_registered_route_wins [OF a, of "''get''" None throwing None reply_created]
    by (simp add: u)
qed

text \<open>
  C8. \<^verbatim>\<open>_findRoute\<close> decodes the request segment of a parameter segment with
  \<^verbatim>\<open>decodeURIComponent\<close>, which throws a \<^verbatim>\<open>URIError\<close> for a malformed escape, and nothing in
  \<^verbatim>\<open>_findRoute\<close> catches it. The parameter segment of \<^verbatim>\<open>/files/:name\<close> does not match the
  request segment \<^verbatim>\<open>100%\<close>; and for the request \<^verbatim>\<open>/%/other\<close> no route matches (the literal
  segment of \<^verbatim>\<open>/:dir/list\<close> differs), yet the lookup throws instead of returning
  \<^verbatim>\<open>null\<close>.
\<close>

theorem malformed_escape_raises_in_findRoute:
  "MockApi_findRoute
     (MockApi_register ''GET'' ''/files/:name'' sch hdl \<lparr>db = d, routes = []\<rparr>)
     ''GET'' ''/files/100%'' = Inl URIError
   \<and> MockApi_findRoute
     (MockApi_register ''GET'' ''/:dir/list'' sch hdl \<lparr>db = d, routes = []\<rparr>)
     ''GET'' ''/%/other'' = Inl URIError"
  by (simp add: MockApi_findRoute_def MockApi_register_def segments_def startsWith_colon_def
      decodeURIComponent_def toUpperCase_def upper_char_def)

section \<open>Properties of fetch\<close>

lemma build_json:
  "200 \<le> c \<Longrightarrow> c \<le> 599 \<Longrightarrow> c \<notin> {204, 205, 304} \<Longrightarrow> v \<noteq> JUndefined \<Longrightarrow>
   build (json v (set_status c new_ResponseHelper)) =
     Inr \<lparr>status = c,
          statusText = (case map_of statusTextMap c of Some t \<Rightarrow> t | None \<Rightarrow> []),
          body = Some (Json v), headers = [(''Content-Type'', ''application/json'')]\<rparr>"
  by (simp add: build_def json_def set_status_def new_ResponseHelper_def)

lemma build_well_formed: "build r = Inr resp \<Longrightarrow> well_formed resp"
  by (auto simp: build_def well_formed_def split: if_splits)

lemma internal_server_error_eq:
  "internal_server_error =
     Inr \<lparr>status = 500, statusText = ''Internal Server Error'',
          body = Some (Json (JObj [(''message'', JStr ''Internal Server Error'')])),
          headers = [(''Content-Type'', ''application/json'')]\<rparr>"
  by (simp add: internal_server_error_def build_json statusTextMap_def)

text \<open>The \<^verbatim>\<open>try\<close> block always ends in a response, and a handler that throws gives 500.\<close>

lemma run_handler_responds:
  "\<exists>resp. outcome (run_handler r req d) = Inr resp \<and> well_formed resp"
proof (cases "handler_r r req new_ResponseHelper d")
  case (Resolved res d')
  show ?thesis
  proof (cases "build res")
    case (Inl e)
    then show ?thesis
      using Resolved by (simp add: run_handler_def internal_server_error_eq well_formed_def)
  next
    case (Inr resp)
    then show ?thesis
      using Resolved build_well_formed [OF Inr] by (simp add: run_handler_def)
  qed
next
  case (Rejected d')
  then show ?thesis
    by (simp add: run_handler_def internal_server_error_eq well_formed_def)
qed

lemma run_handler_rejected:
  "handler_r r req new_ResponseHelper d = Rejected d' \<Longrightarrow>
   outcome (run_handler r req d) = internal_server_error"
  by (simp add: run_handler_def)

lemma run_handler_invoked: "invoked (run_handler r req d) = [req]"
  by (simp add: run_handler_def split: handler_outcome.splits sum.splits)

text \<open>Before \<^verbatim>\<open>init()\<close> has opened the store, \<^verbatim>\<open>fetch\<close> throws, whatever it is given.\<close>

lemma fetch_before_init:
  "db api = None \<Longrightarrow>
   MockApi_fetch h api input opts =
     \<lparr>outcome = Inl (Error ''MockApi is not initialized. Call .init() before use.''),
      store = None, invoked = []\<rparr>"
  by (simp add: MockApi_fetch_def)

text \<open>What \<^verbatim>\<open>fetch\<close> does once the store is open, the URL parsed and the route looked up.\<close>

lemma fetch_not_found:
  assumes "db api = Some d" and "URL_new h input = Some u"
    and "MockApi_findRoute api (request_method opts) (pathname u) = Inr None"
  shows "MockApi_fetch h api input opts =
     \<lparr>outcome = Inr \<lparr>status = 404, statusText = ''Not Found'',
          body = Some (Json (JObj [(''message'',
            JStr (''Route '' @ request_method opts @ '' '' @ pathname u @ '' not found.''))])),
          headers = [(''Content-Type'', ''application/json'')]\<rparr>,
      store = Some d, invoked = []\<rparr>"
  using assms by (simp add: MockApi_fetch_def build_json statusTextMap_def)

lemma fetch_invalid:
  assumes "db api = Some d" and "URL_new h input = Some u"
    and "MockApi_findRoute api (request_method opts) (pathname u) = Inr (Some (r, ps))"
    and "schema_r r = Some sch"
    and "request_method opts \<in> {''POST'', ''PUT'', ''PATCH''}"
    and "\<not> success (validateSchema h (parse_body h (body_o opts)) sch)"
  shows "MockApi_fetch h api input opts =
     \<lparr>outcome = Inr \<lparr>status = 400, statusText = ''Bad Request'',
          body = Some (Json (JObj [(''message'', JStr ''Validation Error''),
            (''errors'', errors (validateSchema h (parse_body h (body_o opts)) sch))])),
          headers = [(''Content-Type'', ''application/json'')]\<rparr>,
      store = Some d, invoked = []\<rparr>"
  using assms by (auto simp: MockApi_fetch_def build_json statusTextMap_def)

lemma fetch_handled:
  assumes "db api = Some d" and "URL_new h input = Some u"
    and "MockApi_findRoute api (request_method opts) (pathname u) = Inr (Some (r, ps))"
    and "invoked (MockApi_fetch h api input opts) \<noteq> []"
  shows "MockApi_fetch h api input opts = run_handler r (request_of h u opts ps) d"
  using assms by (auto simp: MockApi_fetch_def split: option.splits if_splits)

lemma fetch_cases:
  assumes "db api = Some d" and "URL_new h input = Some u"
    and "MockApi_findRoute api (request_method opts) (pathname u) = Inr (Some (r, ps))"
  shows "invoked (MockApi_fetch h api input opts) = [] \<and>
         (\<exists>sch. schema_r r = Some sch \<and> request_method opts \<in> {''POST'', ''PUT'', ''PATCH''} \<and>
                \<not> success (validateSchema h (parse_body h (body_o opts)) sch))
         \<or> MockApi_fetch h api input opts = run_handler r (request_of h u opts ps) d"
  using assms by (auto simp: MockApi_fetch_def split: option.splits if_splits)

text \<open>
  C1, as the code has it. Before \<^verbatim>\<open>init\<close> has opened the store \<^verbatim>\<open>fetch\<close> throws, by its first
  statement. Once the store is open, and provided the \<^verbatim>\<open>URL\<close> constructor accepts the input
  and the route lookup returns, \<^verbatim>\<open>fetch\<close> throws nothing and returns a well-formed response:
  404 when no route matches, 400 when the validation fails, 500 when the handler throws;
  and a body that is not JSON is passed on as the raw string.
\<close>

theorem fetch_responds_once_initialized:
  assumes "db api = Some d" and "URL_new h input = Some u"
    and "MockApi_findRoute api (request_method opts) (pathname u) = Inr found"
  shows "\<exists>resp. outcome (MockApi_fetch h api input opts) = Inr resp \<and> well_formed resp
           \<and> (found = None \<longrightarrow> status resp = 404)
           \<and> (\<forall>r ps sch. found = Some (r, ps) \<and> schema_r r = Some sch \<and>
                  request_method opts \<in> {''POST'', ''PUT'', ''PATCH''} \<and>
                  \<not> success (validateSchema h (parse_body h (body_o opts)) sch)
                \<longrightarrow> status resp = 400)
           \<and> (\<forall>r ps d'. found = Some (r, ps) \<and> invoked (MockApi_fetch h api input opts) \<noteq> [] \<and>
                  handler_r r (request_of h u opts ps) new_ResponseHelper d = Rejected d'
                \<longrightarrow> status resp = 500)
           \<and> (\<forall>t. body_o opts = Some t \<and> t \<noteq> [] \<and> JSON_parse h t = None
                \<longrightarrow> parse_body h (body_o opts) = JStr t)"
proof -
  have raw: "parse_body h (body_o opts) = JStr t"
    if "body_o opts = Some t" "t \<noteq> []" "JSON_parse h t = None" for t
    using that by (simp add: parse_body_def)
  show ?thesis
  proof (cases found)
    case None
    then show ?thesis
      using fetch_not_found [OF assms(1,2)] assms(3) raw by (simp add: well_formed_def)
  next
    case (Some a)
    obtain r ps where a: "a = (r, ps)" by (cases a)
    have f: "MockApi_findRoute api (request_method opts) (pathname u) = Inr (Some (r, ps))"
      using assms(3) Some a by simp
    show ?thesis
    proof (cases "\<exists>sch. schema_r r = Some sch \<and>
        request_method opts \<in> {''POST'', ''PUT'', ''PATCH''} \<and>
        \<not> success (validateSchema h (parse_body h (body_o opts)) sch)")
      case True
      then obtain sch where sch: "schema_r r = Some sch"
        "request_method opts \<in> {''POST'', ''PUT'', ''PATCH''}"
        "\<not> success (validateSchema h (parse_body h (body_o opts)) sch)" by blast
      show ?thesis
        using fetch_invalid [OF assms(1,2) f sch] Some a raw by (simp add: well_formed_def)
    next
      case False
      then have run: "MockApi_fetch h api input opts = run_handler r (request_of h u opts ps) d"
        using fetch_cases [OF assms(1,2) f] by blast
      obtain resp where resp: "outcome (run_handler r (request_of h u opts ps) d) = Inr resp"
        "well_formed resp"
        using run_handler_responds by blast
      have "status resp = 500"
        if "handler_r r (request_of h u opts ps) new_ResponseHelper d = Rejected d'" for d'
        using run_handler_rejected [OF that] resp(1) by (simp add: internal_server_error_eq)
      then show ?thesis
        using run resp Some a False raw by auto
    qed
  qed
qed

text \<open>\<^verbatim>\<open>GET /posts/7\<close> on the instance of the examples: the handler throws, the answer is 500.\<close>

theorem fetch_responds_once_initialized_witness:
  "db example_api = Some [(''posts'', [])]
   \<and> URL_new example_host ''/posts/7'' = Some \<lparr>pathname = ''/posts/7'', searchParams = []\<rparr>
   \<and> (\<exists>resp. outcome (MockApi_fetch example_host example_api ''/posts/7''
                 \<lparr>method_o = None, body_o = None\<rparr>) = Inr resp
         \<and> well_formed resp \<and> status resp = 500)"
proof -
  let ?opts = "\<lparr>method_o = None, body_o = None\<rparr>"
  let ?u = "\<lparr>pathname = ''/posts/7'', searchParams = []\<rparr>"
  let ?r = "\<lparr>method_r = ''GET'', path = ''/posts/:id'', pathSegments = [''posts'', '':id''],
             params = [(''id'', 1)], schema_r = None, handler_r = throwing\<rparr>"
  have a: "db example_api = Some [(''posts'', [])]"
    by (simp add: example_api_def MockApi_register_def)
  have b: "URL_new example_host ''/posts/7'' = Some ?u"
    by (simp add: example_host_def)
  have c: "MockApi_findRoute example_api (request_method ?opts) (pathname ?u)
      = Inr (Some (?r, [(''id'', ''7'')]))"
    by (simp add: example_api_def MockApi_findRoute_def MockApi_register_def segments_def
        startsWith_colon_def decodeURIComponent_def request_method_def toUpperCase_def
        upper_char_def enumerate_eq_zip)
  have i: "invoked (MockApi_fetch example_host example_api ''/posts/7'' ?opts) \<noteq> []"
    using a b c by (simp add: MockApi_fetch_def run_handler_invoked)
  have t: "handler_r ?r (request_of example_host ?u ?opts [(''id'', ''7'')]) new_ResponseHelper
             [(''posts'', [])] = Rejected [(''posts'', [])]"
    by (simp add: throwing_def)
  show ?thesis
    using a b i t fetch_responds_once_initialized [OF a b c] by auto
qed

text \<open>
  C1 as stated fails: before \<^verbatim>\<open>init\<close> every call of \<^verbatim>\<open>fetch\<close> throws; and on the open
  instance the request \<^verbatim>\<open>GET /files/100%\<close> to the route \<^verbatim>\<open>/files/:name\<close> throws the
  \<^verbatim>\<open>URIError\<close> of the route lookup.
\<close>

theorem fetch_raises:
  "outcome (MockApi_fetch example_host
      (MockApi_register ''get'' ''/posts'' None reply_created \<lparr>db = None, routes = []\<rparr>)
      ''/posts'' \<lparr>method_o = None, body_o = None\<rparr>)
     = Inl (Error ''MockApi is not initialized. Call .init() before use.'')
   \<and> outcome (MockApi_fetch example_host
      (MockApi_register ''get'' ''/files/:name'' None reply_created \<lparr>db = Some [], routes = []\<rparr>)
      ''/files/100%'' \<lparr>method_o = None, body_o = None\<rparr>)
     = Inl URIError"
  by (simp add: MockApi_fetch_def MockApi_register_def example_host_def MockApi_findRoute_def
      segments_def startsWith_colon_def decodeURIComponent_def request_method_def
      toUpperCase_def upper_char_def)

text \<open>
  C6. When the matched route has a schema, the method is POST, PUT or PATCH and the
  validation of the parsed body fails, \<^verbatim>\<open>fetch\<close> answers 400 with the message and the
  \<^verbatim>\<open>errors\<close> of the validation, no handler is invoked and the store is as it was.
\<close>

theorem validation_failure_answers_400:
  assumes "db api = Some d" and "URL_new h input = Some u"
    and "MockApi_findRoute api (request_method opts) (pathname u) = Inr (Some (r, ps))"
    and "schema_r r = Some sch"
    and "request_method opts \<in> {''POST'', ''PUT'', ''PATCH''}"
    and "\<not> success (validateSchema h (parse_body h (body_o opts)) sch)"
  shows "MockApi_fetch h api input opts =
     \<lparr>outcome = Inr \<lparr>status = 400, statusText = ''Bad Request'',
          body = Some (Json (JObj [(''message'', JStr ''Validation Error''),
            (''errors'', errors (validateSchema h (parse_body h (body_o opts)) sch))])),
          headers = [(''Content-Type'', ''application/json'')]\<rparr>,
      store = Some d, invoked = []\<rparr>"
proof -
  have "request_method opts \<in> set [''POST'', ''PUT'', ''PATCH'']"
    using assms(5) by simp
  then have "MockApi_fetch h api input opts =
      \<lparr>outcome = build (json (JObj [(''message'', JStr ''Validation Error''),
          (''errors'', errors (validateSchema h (parse_body h (body_o opts)) sch))])
          (set_status 400 new_ResponseHelper)),
       store = Some d, invoked = []\<rparr>"
    using assms(1-4,6) by (simp add: MockApi_fetch_def)
  then show ?thesis
    by (simp add: build_json statusTextMap_def)
qed

text \<open>
  \<^verbatim>\<open>POST /posts\<close> with the body \<^verbatim>\<open>{"title":"ok","status":"draft"}\<close>: the title is too short,
  the answer is 400 with an error on \<^verbatim>\<open>title\<close>, and the handler is not invoked.
\<close>

theorem validation_failure_answers_400_witness:
  "request_method \<lparr>method_o = Some ''post'', body_o = Some ''{\"title\":\"ok\",\"status\":\"draft\"}''\<rparr>
     \<in> {''POST'', ''PUT'', ''PATCH''}
   \<and> MockApi_fetch example_host example_api ''/posts''
       \<lparr>method_o = Some ''post'', body_o = Some ''{\"title\":\"ok\",\"status\":\"draft\"}''\<rparr> =
     \<lparr>outcome = Inr \<lparr>status = 400, statusText = ''Bad Request'',
          body = Some (Json (JObj [(''message'', JStr ''Validation Error''),
            (''errors'', JObj [(''title'',
               JArr [JStr (''Minimum length is '' @ example_number_text (Fin 5))])])])),
          headers = [(''Content-Type'', ''application/json'')]\<rparr>,
      store = Some [(''posts'', [])], invoked = []\<rparr>"
proof -
  let ?opts = "\<lparr>method_o = Some ''post'', body_o = Some ''{\"title\":\"ok\",\"status\":\"draft\"}''\<rparr>"
  let ?u = "\<lparr>pathname = ''/posts'', searchParams = []\<rparr>"
  let ?r = "\<lparr>method_r = ''POST'', path = ''/posts'', pathSegments = [''posts''],
             params = [], schema_r = Some post_schema, handler_r = reply_created\<rparr>"
  have m: "request_method ?opts = ''POST''"
    by (simp add: request_method_def toUpperCase_def upper_char_def)
  have a: "db example_api = Some [(''posts'', [])]"
    by (simp add: example_api_def MockApi_register_def)
  have b: "URL_new example_host ''/posts'' = Some ?u"
    by (simp add: example_host_def)
  have c: "MockApi_findRoute example_api (request_method ?opts) (pathname ?u) = Inr (Some (?r, []))"
    unfolding m
    by (simp add: example_api_def MockApi_findRoute_def MockApi_register_def segments_def
        startsWith_colon_def toUpperCase_def upper_char_def enumerate_eq_zip)
  have s: "schema_r ?r = Some post_schema" by simp
  have p: "parse_body example_host (Some ''{\"title\":\"ok\",\"status\":\"draft\"}'')
      = JObj [(''title'', JStr ''ok''), (''status'', JStr ''draft'')]"
    by (simp add: parse_body_def example_host_def example_json_def)
  have v: "validateSchema example_host (JObj [(''title'', JStr ''ok''), (''status'', JStr ''draft'')])
      post_schema
      = \<lparr>success = False, errors = JObj [(''title'',
          JArr [JStr (''Minimum length is '' @ example_number_text (Fin 5))])]\<rparr>"
    by (simp add: validateSchema_def post_schema_def no_rule_def fieldErrors_def type_checks_def
        string_checks_def enum_checks_def truthy_num_def array_includes_def example_host_def)
  have e: "request_method ?opts \<in> {''POST'', ''PUT'', ''PATCH''}" by (simp add: m)
  have f: "\<not> success (validateSchema example_host (parse_body example_host (body_o ?opts)) post_schema)"
    by (simp add: p v)
  show ?thesis
    using e validation_failure_answers_400 [OF a b c s e f] by (simp add: p v)
qed

end
